theory Spec2Isabelle
  imports Main "HOL-Library.Word" "HOL-Library.AList"
begin

section \<open>The validator's enrollment-certificate store (validator_db.go)\<close>

text \<open>
  The file \<^verbatim>\<open>openchain/crypto/validator/validator_db.go\<close> keeps enrollment
  certificates in an SQLite table \<^verbatim>\<open>Certificates (id VARCHAR, cert BLOB, PRIMARY KEY (id))\<close>
  inside the file \<^verbatim>\<open>client.db\<close> of the directory \<^verbatim>\<open>getDBPath()\<close>.
  Its functions are embedded below as state transformers on a \<open>world\<close>: the directory,
  the objects handed out by \<^verbatim>\<open>database/sql\<close>, the two package variables
  \<^verbatim>\<open>db\<close> and \<^verbatim>\<open>isOpen\<close>, the log and the state the certificate fetcher
  works on.
\<close>

subsection \<open>Values\<close>

type_synonym byte = "8 word"

text \<open>A Go \<^verbatim>\<open>[]byte\<close>: \<open>None\<close> is the nil slice, which \<^verbatim>\<open>cert == nil\<close> tests for.\<close>

type_synonym bytes = "byte list option"

datatype error =
    ErrNoRows
  | ErrTxDone
  | ErrDBClosed
  | ErrorString string
  | SqliteError string

text \<open>A column value of the table; a nil slice is bound as NULL and NULL is scanned as nil.\<close>

datatype sql_value = Null | Blob "byte list"

fun bind_bytes :: "bytes \<Rightarrow> sql_value" where
  "bind_bytes None = Null"
| "bind_bytes (Some b) = Blob b"

fun scan_bytes :: "sql_value \<Rightarrow> bytes" where
  "scan_bytes Null = None"
| "scan_bytes (Blob b) = Some b"

text \<open>The rows of \<^verbatim>\<open>Certificates\<close> in insertion order, and a file of the
  directory: \<open>None\<close> is a database without the table.\<close>

type_synonym table = "(string \<times> sql_value) list"

type_synonym dbfile = "table option"

datatype level = DEBUG | INFO | ERROR | CRITICAL

text \<open>The calls into \<^verbatim>\<open>database/sql\<close> and \<^verbatim>\<open>os\<close> that the environment can make fail.\<close>

datatype call = SQL_OPEN | PING | CREATE_TABLE | QUERY | BEGIN | TX_EXEC | COMMIT | MKDIR_ALL | REMOVE_ALL

record pool =
  dsn :: string
  closed :: bool

record txn =
  tx_pool :: nat
  tx_writes :: table
  tx_done :: bool

text \<open>The struct \<^verbatim>\<open>DB\<close>: its field refers to a \<^verbatim>\<open>*sql.DB\<close> of the world.\<close>

record DB =
  sqlDB :: nat

record 'x world =
  dbdir :: "(string \<times> dbfile) list option"
  pools :: "pool list"
  txs :: "txn list"
  db :: "DB option"
  isOpen :: bool
  faults :: "call \<Rightarrow> error option list"
  logs :: "(level \<times> string) list"
  ext :: 'x

text \<open>
  What the package takes from other files of the repository: the base64 encoder of
  \<^verbatim>\<open>utils\<close> and the two names \<^verbatim>\<open>getDBPath()\<close> and \<^verbatim>\<open>getDBFilename()\<close>.
  They are parameters of the model.
\<close>

record conf =
  EncodeBase64 :: "bytes \<Rightarrow> string"
  getDBPath :: string
  getDBFilename :: string

datatype 'a outcome = Returns 'a | Exits

subsection \<open>The environment: logger, file system and storage engine\<close>

text \<open>
  The program runs against \<^verbatim>\<open>database/sql\<close> with the SQLite driver and against the file
  system. Both are described here as far as the program uses them:
  \<^item> one directory, \<^verbatim>\<open>getDBPath()\<close>, with its files by name; every file is a database
    with or without the table \<^verbatim>\<open>Certificates\<close>;
  \<^item> a pool (\<^verbatim>\<open>*sql.DB\<close>) names its file and is open or closed; a transaction
    (\<^verbatim>\<open>*sql.Tx\<close>) collects its inserts until commit or rollback;
  \<^item> each call that can fail takes its outcome from a schedule kept per kind of call, so that
    any call can be made to fail with any error at any time;
  \<^item> the program is run by one caller at a time: calls do not interleave.
\<close>

text \<open>A log call is recorded with its level and format string; its arguments are not.\<close>

definition logf :: "level \<Rightarrow> string \<Rightarrow> 'x world \<Rightarrow> 'x world" where
  "logf l m w = w\<lparr>logs := logs w @ [(l, m)]\<rparr>"

text \<open>The next scheduled outcome of a call: a call with nothing scheduled does not fail
  by the environment's doing.\<close>

definition fault :: "call \<Rightarrow> 'x world \<Rightarrow> error option \<times> 'x world" where
  "fault c w =
     (case faults w c of
        [] \<Rightarrow> (None, w)
      | f # fs \<Rightarrow> (f, w\<lparr>faults := (faults w)(c := fs)\<rparr>))"

text \<open>Obtaining a connection of a pool: refused when the pool is closed or the directory
  is missing; SQLite creates the file, an empty database, when it is absent.\<close>

definition connect :: "nat \<Rightarrow> 'x world \<Rightarrow> error + 'x world" where
  "connect h w =
     (if length (pools w) \<le> h \<or> closed (pools w ! h) then Inl ErrDBClosed
      else case dbdir w of
             None \<Rightarrow> Inl (SqliteError ''unable to open database file'')
           | Some fs \<Rightarrow>
               (case map_of fs (dsn (pools w ! h)) of
                  None \<Rightarrow> Inr (w\<lparr>dbdir := Some (fs @ [(dsn (pools w ! h), None)])\<rparr>)
                | Some f \<Rightarrow> Inr w))"

definition file_table :: "string \<Rightarrow> 'x world \<Rightarrow> table option" where
  "file_table name w =
     (case dbdir w of
        None \<Rightarrow> None
      | Some fs \<Rightarrow> (case map_of fs name of Some (Some t) \<Rightarrow> Some t | _ \<Rightarrow> None))"

definition set_table :: "string \<Rightarrow> table \<Rightarrow> 'x world \<Rightarrow> 'x world" where
  "set_table name t w =
     (case dbdir w of
        None \<Rightarrow> w
      | Some fs \<Rightarrow> w\<lparr>dbdir := Some (AList.update name (Some t) fs)\<rparr>)"

text \<open>\<^verbatim>\<open>sql.Open\<close> only creates the pool; no file is touched before the first use.\<close>

definition sql_Open :: "string \<Rightarrow> 'x world \<Rightarrow> (error + nat) \<times> 'x world" where
  "sql_Open name w0 =
     (case fault SQL_OPEN w0 of
        (Some e, w) \<Rightarrow> (Inl e, w)
      | (None, w) \<Rightarrow> (Inr (length (pools w)), w\<lparr>pools := pools w @ [\<lparr>dsn = name, closed = False\<rparr>]\<rparr>))"

definition sql_Ping :: "nat \<Rightarrow> 'x world \<Rightarrow> error option \<times> 'x world" where
  "sql_Ping h w0 =
     (case fault PING w0 of
        (Some e, w) \<Rightarrow> (Some e, w)
      | (None, w) \<Rightarrow> (case connect h w of Inl e \<Rightarrow> (Some e, w) | Inr w' \<Rightarrow> (None, w')))"

text \<open>\<^verbatim>\<open>sql.DB.Close\<close>; the callers ignore its result.\<close>

definition sql_Close :: "nat \<Rightarrow> 'x world \<Rightarrow> 'x world" where
  "sql_Close h w =
     (if h < length (pools w) then w\<lparr>pools := (pools w)[h := (pools w ! h)\<lparr>closed := True\<rparr>]\<rparr> else w)"

text \<open>\<^verbatim>\<open>CREATE TABLE IF NOT EXISTS Certificates ...\<close>\<close>

definition sql_Exec_create :: "nat \<Rightarrow> 'x world \<Rightarrow> error option \<times> 'x world" where
  "sql_Exec_create h w0 =
     (case fault CREATE_TABLE w0 of
        (Some e, w) \<Rightarrow> (Some e, w)
      | (None, w) \<Rightarrow>
          (case connect h w of
             Inl e \<Rightarrow> (Some e, w)
           | Inr w' \<Rightarrow>
               (case file_table (dsn (pools w' ! h)) w' of
                  None \<Rightarrow> (None, set_table (dsn (pools w' ! h)) [] w')
                | Some t \<Rightarrow> (None, w'))))"

text \<open>\<^verbatim>\<open>SELECT cert FROM Certificates where id = ?\<close>: the row, if there is one.\<close>

definition sql_QueryRow :: "nat \<Rightarrow> string \<Rightarrow> 'x world \<Rightarrow> (error + sql_value option) \<times> 'x world" where
  "sql_QueryRow h key w0 =
     (case fault QUERY w0 of
        (Some e, w) \<Rightarrow> (Inl e, w)
      | (None, w) \<Rightarrow>
          (case connect h w of
             Inl e \<Rightarrow> (Inl e, w)
           | Inr w' \<Rightarrow>
               (case file_table (dsn (pools w' ! h)) w' of
                  None \<Rightarrow> (Inl (SqliteError ''no such table: Certificates''), w')
                | Some t \<Rightarrow> (Inr (map_of t key), w'))))"

text \<open>\<^verbatim>\<open>Row.Scan(&cert)\<close> on a nil \<^verbatim>\<open>cert\<close>: an error leaves it nil.\<close>

definition row_Scan :: "error + sql_value option \<Rightarrow> bytes \<times> error option" where
  "row_Scan row =
     (case row of
        Inl e \<Rightarrow> (None, Some e)
      | Inr None \<Rightarrow> (None, Some ErrNoRows)
      | Inr (Some v) \<Rightarrow> (scan_bytes v, None))"

definition sql_Begin :: "nat \<Rightarrow> 'x world \<Rightarrow> (error + nat) \<times> 'x world" where
  "sql_Begin h w0 =
     (case fault BEGIN w0 of
        (Some e, w) \<Rightarrow> (Inl e, w)
      | (None, w) \<Rightarrow>
          (case connect h w of
             Inl e \<Rightarrow> (Inl e, w)
           | Inr w' \<Rightarrow>
               (Inr (length (txs w')),
                w'\<lparr>txs := txs w' @ [\<lparr>tx_pool = h, tx_writes = [], tx_done = False\<rparr>]\<rparr>)))"

text \<open>\<^verbatim>\<open>INSERT INTO Certificates (id, cert) VALUES (?, ?)\<close> inside a transaction:
  the primary key refuses an id that the table or the transaction already holds.\<close>

definition tx_Exec_insert :: "nat \<Rightarrow> string \<Rightarrow> bytes \<Rightarrow> 'x world \<Rightarrow> error option \<times> 'x world" where
  "tx_Exec_insert tx key cert w0 =
     (case fault TX_EXEC w0 of
        (Some e, w) \<Rightarrow> (Some e, w)
      | (None, w) \<Rightarrow>
          (if length (txs w) \<le> tx \<or> tx_done (txs w ! tx) then (Some ErrTxDone, w)
           else case file_table (dsn (pools w ! tx_pool (txs w ! tx))) w of
                  None \<Rightarrow> (Some (SqliteError ''no such table: Certificates''), w)
                | Some t \<Rightarrow>
                    (if map_of (t @ tx_writes (txs w ! tx)) key \<noteq> None
                     then (Some (SqliteError ''UNIQUE constraint failed: Certificates.id''), w)
                     else (None, w\<lparr>txs := (txs w)[tx := (txs w ! tx)\<lparr>tx_writes := tx_writes (txs w ! tx) @ [(key, bind_bytes cert)]\<rparr>]\<rparr>))))"

text \<open>\<^verbatim>\<open>Tx.Commit\<close>: the transaction is done afterwards whether or not the commit went
  through; a commit that fails writes nothing.\<close>

definition tx_Commit :: "nat \<Rightarrow> 'x world \<Rightarrow> error option \<times> 'x world" where
  "tx_Commit tx w0 =
     (if length (txs w0) \<le> tx \<or> tx_done (txs w0 ! tx) then (Some ErrTxDone, w0)
      else case fault COMMIT (w0\<lparr>txs := (txs w0)[tx := (txs w0 ! tx)\<lparr>tx_done := True\<rparr>]\<rparr>) of
             (Some e, w) \<Rightarrow> (Some e, w)
           | (None, w) \<Rightarrow>
               (case file_table (dsn (pools w ! tx_pool (txs w ! tx))) w of
                  None \<Rightarrow> (None, w)
                | Some t \<Rightarrow> (None, set_table (dsn (pools w ! tx_pool (txs w ! tx))) (t @ tx_writes (txs w ! tx)) w)))"

text \<open>\<^verbatim>\<open>Tx.Rollback\<close>, whose result the callers ignore: what the transaction wrote is dropped.\<close>

definition tx_Rollback :: "nat \<Rightarrow> 'x world \<Rightarrow> 'x world" where
  "tx_Rollback tx w =
     (if length (txs w) \<le> tx \<or> tx_done (txs w ! tx) then w
      else w\<lparr>txs := (txs w)[tx := (txs w ! tx)\<lparr>tx_writes := [], tx_done := True\<rparr>]\<rparr>)"

text \<open>\<^verbatim>\<open>os.MkdirAll(dbPath, 0755)\<close> and \<^verbatim>\<open>os.RemoveAll(dbPath)\<close>.\<close>

definition os_MkdirAll :: "'x world \<Rightarrow> error option \<times> 'x world" where
  "os_MkdirAll w0 =
     (case fault MKDIR_ALL w0 of
        (Some e, w) \<Rightarrow> (Some e, w)
      | (None, w) \<Rightarrow> (None, (case dbdir w of None \<Rightarrow> w\<lparr>dbdir := Some []\<rparr> | Some fs \<Rightarrow> w)))"

definition os_RemoveAll :: "'x world \<Rightarrow> error option \<times> 'x world" where
  "os_RemoveAll w0 =
     (case fault REMOVE_ALL w0 of
        (Some e, w) \<Rightarrow> (Some e, w)
      | (None, w) \<Rightarrow> (None, w\<lparr>dbdir := None\<rparr>))"

text \<open>Modelled from the spec: \<^verbatim>\<open>utils.DirMissingOrEmpty\<close> is not in the source file.
  The spec's path resolver offers \<open>isMissingOrEmpty(path)\<close>, a boolean: the directory is
  missing or has no entry. The error result is taken to be nil.\<close>

definition DirMissingOrEmpty :: "'x world \<Rightarrow> bool \<times> error option" where
  "DirMissingOrEmpty w = (case dbdir w of None \<Rightarrow> (True, None) | Some fs \<Rightarrow> (fs = [], None))"

text \<open>Modelled from the spec: \<^verbatim>\<open>utils.FileMissing\<close> is not in the source file. The
  spec's path resolver offers \<open>isFileMissing(path, name)\<close>, a boolean: the directory has
  no file of that name. The error result is taken to be nil.\<close>

definition FileMissing :: "'x world \<Rightarrow> string \<Rightarrow> bool \<times> error option" where
  "FileMissing w name =
     (case dbdir w of None \<Rightarrow> (True, None) | Some fs \<Rightarrow> (map_of fs name = None, None))"

subsection \<open>The functions of validator\_db.go\<close>

text \<open>The exported variable \<^verbatim>\<open>ErrDBAlreadyInitialized\<close>; no function of the file uses it.\<close>

definition ErrDBAlreadyInitialized :: error where
  "ErrDBAlreadyInitialized = ErrorString ''DB already Initilized.''"

text \<open>\<^verbatim>\<open>func (db *DB) Init() error\<close>; the receiver may be nil, it is not dereferenced.\<close>

definition Init :: "DB option \<Rightarrow> 'x world \<Rightarrow> error option \<times> 'x world" where
  "Init d w = (None, w)"

definition selectEnrollmentCert :: "DB \<Rightarrow> string \<Rightarrow> 'x world \<Rightarrow> (bytes \<times> error option) \<times> 'x world" where
  "selectEnrollmentCert d key w0 =
     (let w1 = logf INFO ''Select Enrollment TCert...'' w0;
          (row, w2) = sql_QueryRow (sqlDB d) key w1;
          (cert, err) = row_Scan row
      in if err = Some ErrNoRows then ((None, None), w2)
         else if err \<noteq> None then ((None, err), logf ERROR ''Error during select: %s'' w2)
         else ((cert, None),
               logf INFO ''Select Enrollment Cert...done!'' (logf INFO ''cert %s'' w2)))"

text \<open>The fetcher works on a state of its own, \<open>ext\<close>, in which its invocations can be
  observed; it does not reach into the store.\<close>

definition GetEnrollmentCert ::
  "conf \<Rightarrow> DB \<Rightarrow> bytes \<Rightarrow> (bytes \<Rightarrow> 'x \<Rightarrow> (bytes \<times> error option) \<times> 'x) \<Rightarrow> 'x world
     \<Rightarrow> (bytes \<times> error option) \<times> 'x world" where
  "GetEnrollmentCert cf d ident certFetcher w0 =
     (let sid = EncodeBase64 cf ident;
          ((cert, err), w1) = selectEnrollmentCert d sid w0
      in if err \<noteq> None then ((None, err), logf ERROR ''Failed selecting enrollment cert: %s'' w1)
         else
           let w2 = logf INFO ''GetEnrollmentCert:cert %s'' w1
           in if cert = None then
                (let w3 = logf INFO ''Fectch Enrollment Certificate from ECA...'' w2;
                     ((cert, err), x) = certFetcher ident (ext w3);
                     w4 = w3\<lparr>ext := x\<rparr>
                 in if err \<noteq> None then ((None, err), w4)
                    else
                      let w5 = logf INFO ''Store certificate...'' w4;
                          (r, w6) = sql_Begin (sqlDB d) w5
                      in case r of
                           Inl e \<Rightarrow> ((None, Some e), logf ERROR ''Failed beginning transaction: %s'' w6)
                         | Inr tx \<Rightarrow>
                             (let w7 = logf INFO ''Insert cert %s'' (logf INFO ''Insert id %s'' w6);
                                  (err, w8) = tx_Exec_insert tx sid cert w7
                              in if err \<noteq> None
                                 then ((None, err), tx_Rollback tx (logf ERROR ''Failed inserting cert %s'' w8))
                                 else
                                   let (err, w9) = tx_Commit tx w8
                                   in if err \<noteq> None
                                      then ((None, err),
                                            tx_Rollback tx (logf ERROR ''Failed committing transaction: %s'' w9))
                                      else
                                        let w10 = logf INFO ''Fectch Enrollment Certificate from ECA...done!'' w9;
                                            ((cert, err), w11) = selectEnrollmentCert d sid w10
                                        in if err \<noteq> None
                                           then ((None, err),
                                                 logf ERROR ''Failed selecting next TCert after fetching: %s'' w11)
                                           else ((cert, None), w11)))
              else ((cert, None), w2))"

definition CloseDB :: "DB \<Rightarrow> 'x world \<Rightarrow> 'x world" where
  "CloseDB d w = (sql_Close (sqlDB d) w)\<lparr>isOpen := False\<rparr>"

definition getDBName :: string where
  "getDBName = ''client.db''"

definition getDBHandle :: "'x world \<Rightarrow> DB option" where
  "getDBHandle w = db w"

text \<open>\<^verbatim>\<open>createDB\<close>: \<^verbatim>\<open>log.Fatal\<close> logs at the critical level, without a format
  string, and ends the process; the deferred \<^verbatim>\<open>db.Close()\<close> runs at each return after
  the ping.\<close>

definition createDB :: "conf \<Rightarrow> 'x world \<Rightarrow> error option outcome \<times> 'x world" where
  "createDB cf w0 =
     (let w1 = logf DEBUG ''Creating DB at [%s]'' w0;
          (missing, err) = FileMissing w1 (getDBFilename cf)
      in if \<not> missing
         then (Returns (Some (ErrorString (''db dir ['' @ getDBPath cf @ ''] already exists''))), w1)
         else
           let w2 = snd (os_MkdirAll w1);
               w3 = logf DEBUG ''Open DB at [%s]'' w2;
               (r, w4) = sql_Open getDBName w3
           in case r of
                Inl e \<Rightarrow> (Returns (Some e), w4)
              | Inr h \<Rightarrow>
                  (let w5 = logf DEBUG ''Ping DB at [%s]'' w4;
                       (err, w6) = sql_Ping h w5
                   in if err \<noteq> None then (Exits, logf CRITICAL [] w6)
                      else
                        let w7 = logf DEBUG ''Create Table [%s] at [%s]'' w6;
                            (err, w8) = sql_Exec_create h w7
                        in if err \<noteq> None
                           then (Returns err, sql_Close h (logf DEBUG ''Failed creating table: %s'' w8))
                           else (Returns None, sql_Close h (logf DEBUG ''DB created at [%s]'' w8))))"

definition deleteDB :: "'x world \<Rightarrow> error option \<times> 'x world" where
  "deleteDB w0 = os_RemoveAll (logf DEBUG ''Removing DB at [%s]'' w0)"

definition createDBIfDBPathEmpty :: "conf \<Rightarrow> 'x world \<Rightarrow> error option outcome \<times> 'x world" where
  "createDBIfDBPathEmpty cf w0 =
     (let (missing, err) = DirMissingOrEmpty w0;
          w1 = (if err \<noteq> None then logf ERROR ''Failed checking directory %s: %s'' w0 else w0);
          w2 = logf DEBUG ''Db path [%s] missing [%t]'' w1;
          (missing, w3) =
            (if \<not> missing
             then (let (missing, err) = FileMissing w2 getDBName;
                       w = (if err \<noteq> None then logf ERROR ''Failed checking file %s: %s'' w2 else w2)
                   in (missing, logf DEBUG ''Db file [%s] missing [%t]'' w))
             else (missing, w2))
      in if missing
         then (case createDB cf w3 of
                 (Exits, w4) \<Rightarrow> (Exits, w4)
               | (Returns (Some e), w4) \<Rightarrow> (Returns None, logf DEBUG ''Failed creating db At [%s]: %s'' w4)
               | (Returns None, w4) \<Rightarrow> (Returns None, w4))
         else (Returns None, w3))"

definition openDB :: "conf \<Rightarrow> 'x world \<Rightarrow> (DB option \<times> error option) \<times> 'x world" where
  "openDB cf w0 =
     (if isOpen w0 then ((db w0, None), w0)
      else case sql_Open getDBName w0 of
             (Inl e, w1) \<Rightarrow> ((None, Some e), logf ERROR ''Error opening DB'' w1)
           | (Inr h, w1) \<Rightarrow> ((Some \<lparr>sqlDB = h\<rparr>, None), w1\<lparr>isOpen := True\<rparr>))"

definition initDB :: "conf \<Rightarrow> 'x world \<Rightarrow> error option outcome \<times> 'x world" where
  "initDB cf w0 =
     (if isOpen w0 then (Returns (Some (ErrorString ''DB already initialized.'')), w0)
      else case createDBIfDBPathEmpty cf w0 of
             (Exits, w1) \<Rightarrow> (Exits, w1)
           | (Returns (Some e), w1) \<Rightarrow> (Returns (Some e), w1)
           | (Returns None, w1) \<Rightarrow>
               (case openDB cf w1 of
                  ((d, err), w2) \<Rightarrow> (Returns err, w2\<lparr>db := d\<rparr>)))"

subsection \<open>Vocabulary of the properties\<close>

text \<open>The handle \<open>d\<close> is open on a database file whose table \<^verbatim>\<open>Certificates\<close> holds the rows \<open>t\<close>.\<close>

definition holds_table :: "DB \<Rightarrow> 'x world \<Rightarrow> table \<Rightarrow> bool" where
  "holds_table d w t \<longleftrightarrow>
     sqlDB d < length (pools w) \<and> \<not> closed (pools w ! sqlDB d) \<and>
     file_table (dsn (pools w ! sqlDB d)) w = Some t"

text \<open>The certificate column stored under a key in the table of a file, if any.\<close>

definition record_at :: "string \<Rightarrow> string \<Rightarrow> 'x world \<Rightarrow> sql_value option" where
  "record_at name key w = (case file_table name w of None \<Rightarrow> None | Some t \<Rightarrow> map_of t key)"

text \<open>The pools that are open, by handle.\<close>

definition open_pools :: "'x world \<Rightarrow> nat list" where
  "open_pools w = filter (\<lambda>h. \<not> closed (pools w ! h)) [0..<length (pools w)]"

text \<open>Two worlds with the same pools, transactions, package variables, fetcher state and
  tables; and two worlds with the same pools and package variables.\<close>

definition same_store :: "'x world \<Rightarrow> 'x world \<Rightarrow> bool" where
  "same_store w w' \<longleftrightarrow>
     pools w' = pools w \<and> txs w' = txs w \<and> db w' = db w \<and> isOpen w' = isOpen w \<and> ext w' = ext w \<and>
     (\<forall>n. file_table n w' = file_table n w)"

definition same_process :: "'x world \<Rightarrow> 'x world \<Rightarrow> bool" where
  "same_process w w' \<longleftrightarrow> pools w' = pools w \<and> db w' = db w \<and> isOpen w' = isOpen w"

text \<open>Every record of the first world is a record of the second, with the same value.\<close>

definition keeps_records :: "'x world \<Rightarrow> 'x world \<Rightarrow> bool" where
  "keeps_records w w' \<longleftrightarrow> (\<forall>n k v. record_at n k w = Some v \<longrightarrow> record_at n k w' = Some v)"

text \<open>The operations of the package other than \<^verbatim>\<open>deleteDB\<close>, and a run of them in
  one process: the run ends when \<^verbatim>\<open>log.Fatal\<close> ends the process.\<close>

datatype 'x op =
    Op_Init "DB option"
  | Op_GetEnrollmentCert DB bytes "bytes \<Rightarrow> 'x \<Rightarrow> (bytes \<times> error option) \<times> 'x"
  | Op_CloseDB DB
  | Op_initDB
  | Op_createDB
  | Op_createDBIfDBPathEmpty
  | Op_openDB

fun exec_op :: "conf \<Rightarrow> 'x op \<Rightarrow> 'x world \<Rightarrow> bool \<times> 'x world" where
  "exec_op cf (Op_Init d) w = (False, snd (Init d w))"
| "exec_op cf (Op_GetEnrollmentCert d ident certFetcher) w =
     (False, snd (GetEnrollmentCert cf d ident certFetcher w))"
| "exec_op cf (Op_CloseDB d) w = (False, CloseDB d w)"
| "exec_op cf Op_initDB w = (fst (initDB cf w) = Exits, snd (initDB cf w))"
| "exec_op cf Op_createDB w = (fst (createDB cf w) = Exits, snd (createDB cf w))"
| "exec_op cf Op_createDBIfDBPathEmpty w =
     (fst (createDBIfDBPathEmpty cf w) = Exits, snd (createDBIfDBPathEmpty cf w))"
| "exec_op cf Op_openDB w = (False, snd (openDB cf w))"

fun run :: "conf \<Rightarrow> 'x op list \<Rightarrow> 'x world \<Rightarrow> 'x world" where
  "run cf [] w = w"
| "run cf (p # ps) w =
     (case exec_op cf p w of (True, w') \<Rightarrow> w' | (False, w') \<Rightarrow> run cf ps w')"

subsection \<open>A concrete configuration and concrete worlds\<close>

text \<open>The standard base64 encoding with padding, taken for \<^verbatim>\<open>utils.EncodeBase64\<close>
  in the examples.\<close>

definition b64_alphabet :: string where
  "b64_alphabet = ''ABCDEFGHIJKLMNOPQRSTUVWXYZabcdefghijklmnopqrstuvwxyz0123456789+/''"

fun b64_groups :: "nat list \<Rightarrow> string" where
  "b64_groups (a # b # c # r) =
     [b64_alphabet ! (a div 4), b64_alphabet ! ((a mod 4) * 16 + b div 16),
      b64_alphabet ! ((b mod 16) * 4 + c div 64), b64_alphabet ! (c mod 64)] @ b64_groups r"
| "b64_groups [a, b] =
     [b64_alphabet ! (a div 4), b64_alphabet ! ((a mod 4) * 16 + b div 16),
      b64_alphabet ! ((b mod 16) * 4), CHR ''='']"
| "b64_groups [a] =
     [b64_alphabet ! (a div 4), b64_alphabet ! ((a mod 4) * 16), CHR ''='', CHR ''='']"
| "b64_groups [] = []"

definition StdEncoding :: "bytes \<Rightarrow> string" where
  "StdEncoding b = b64_groups (map unat (case b of None \<Rightarrow> [] | Some l \<Rightarrow> l))"

definition example_conf :: conf where
  "example_conf = \<lparr>EncodeBase64 = StdEncoding, getDBPath = ''/tmp/store'', getDBFilename = ''client.db''\<rparr>"

text \<open>A process that has not touched the store yet: there is no directory.\<close>

definition w_fresh :: "nat world" where
  "w_fresh = \<lparr>dbdir = None, pools = [], txs = [], db = None, isOpen = False,
              faults = (\<lambda>c. []), logs = [], ext = 0\<rparr>"

text \<open>A process whose handle \<open>d0\<close> is open on a store with the rows \<open>t\<close>.\<close>

definition d0 :: DB where
  "d0 = \<lparr>sqlDB = 0\<rparr>"

definition w_store :: "table \<Rightarrow> nat world" where
  "w_store t = \<lparr>dbdir = Some [(''client.db'', Some t)], pools = [\<lparr>dsn = ''client.db'', closed = False\<rparr>],
                txs = [], db = Some d0, isOpen = True, faults = (\<lambda>c. []), logs = [], ext = 0\<rparr>"

definition id0 :: bytes where
  "id0 = Some [0x01, 0x02]"

definition cert0 :: bytes where
  "cert0 = Some [0xAA, 0xBB]"

text \<open>Fetchers that count their invocations in the external state.\<close>

definition fetch_returns :: "bytes \<Rightarrow> bytes \<Rightarrow> nat \<Rightarrow> (bytes \<times> error option) \<times> nat" where
  "fetch_returns c ident n = ((c, None), Suc n)"

definition fetch_fails :: "bytes \<Rightarrow> nat \<Rightarrow> (bytes \<times> error option) \<times> nat" where
  "fetch_fails ident n = ((None, Some (ErrorString ''ECA unreachable'')), Suc n)"

section \<open>Properties\<close>

subsection \<open>Basic facts about the environment\<close>

lemma logf_simps [simp]:
  "dbdir (logf l m w) = dbdir w" "pools (logf l m w) = pools w" "txs (logf l m w) = txs w"
  "db (logf l m w) = db w" "isOpen (logf l m w) = isOpen w" "faults (logf l m w) = faults w"
  "ext (logf l m w) = ext w" "logs (logf l m w) = logs w @ [(l, m)]"
  by (simp_all add: logf_def)

lemma scan_bind [simp]: "scan_bytes (bind_bytes c) = c"
  by (cases c) simp_all

lemma pair_of_fst: "fst p = a \<Longrightarrow> p = (a, snd p)"
  by (cases p) simp

lemmas example_defs = w_store_def d0_def example_conf_def StdEncoding_def id0_def cert0_def
  b64_alphabet_def fetch_returns_def fetch_fails_def holds_table_def file_table_def record_at_def

subsection \<open>The lifecycle: Init, initDB\<close>

text \<open>
  Claim C9. The method \<^verbatim>\<open>DB.Init\<close> returns nil for every receiver, nil included, and
  leaves the world as it was: it does no initialisation work.
\<close>

theorem Init_returns_nil: "Init d w = (None, w)"
  by (simp add: Init_def)

lemma openDB_ok_isOpen: "openDB cf w = ((d, None), w') \<Longrightarrow> isOpen w'"
  by (auto simp: openDB_def split: if_splits prod.splits sum.splits)

text \<open>
  Claim C6. While the flag \<^verbatim>\<open>isOpen\<close> is set, \<^verbatim>\<open>initDB\<close> returns the error
  "DB already initialized." and changes nothing: it neither runs the bootstrap nor opens
  the store again. A call of \<^verbatim>\<open>initDB\<close> that returned nil has set the flag, so a second
  call right after it meets that error.
\<close>

theorem initDB_already_initialized:
  "(isOpen w \<longrightarrow> initDB cf w = (Returns (Some (ErrorString ''DB already initialized.'')), w))
   \<and> (initDB cf w = (Returns None, w') \<longrightarrow>
        initDB cf w' = (Returns (Some (ErrorString ''DB already initialized.'')), w'))"
proof (intro conjI impI)
  assume "isOpen w"
  then show "initDB cf w = (Returns (Some (ErrorString ''DB already initialized.'')), w)"
    by (simp add: initDB_def)
next
  assume ok: "initDB cf w = (Returns None, w')"
  have "isOpen w'"
  proof (cases "isOpen w")
    case True
    with ok show ?thesis by (simp add: initDB_def)
  next
    case False
    with ok obtain w1 d w2 where "openDB cf w1 = ((d, None), w2)" and "w' = w2\<lparr>db := d\<rparr>"
      by (auto simp: initDB_def split: prod.splits outcome.splits option.splits)
    then show ?thesis using openDB_ok_isOpen by fastforce
  qed
  then show "initDB cf w' = (Returns (Some (ErrorString ''DB already initialized.'')), w')"
    by (simp add: initDB_def)
qed

theorem initDB_already_initialized_witness:
  "isOpen (w_store []) \<and>
   initDB example_conf (w_store []) = (Returns (Some (ErrorString ''DB already initialized.'')), w_store []) \<and>
   fst (initDB example_conf w_fresh) = Returns None \<and>
   fst (initDB example_conf (snd (initDB example_conf w_fresh)))
     = Returns (Some (ErrorString ''DB already initialized.''))"
proof -
  have a: "isOpen (w_store [])"
    by (simp add: w_store_def)
  have b: "fst (initDB example_conf w_fresh) = Returns None"
    by code_simp
  note guard = initDB_already_initialized
  from a guard [where w = "w_store []" and cf = example_conf]
  have c: "initDB example_conf (w_store []) = (Returns (Some (ErrorString ''DB already initialized.'')), w_store [])"
    by blast
  from pair_of_fst [OF b] guard [where w = w_fresh and cf = example_conf and w' = "snd (initDB example_conf w_fresh)"]
  have "initDB example_conf (snd (initDB example_conf w_fresh))
          = (Returns (Some (ErrorString ''DB already initialized.'')), snd (initDB example_conf w_fresh))"
    by blast
  with a b c show ?thesis by simp
qed

text \<open>The error of the guard is a value of its own, not the exported variable.\<close>

lemma initDB_error_not_exported:
  "isOpen w \<Longrightarrow> fst (initDB cf w) \<noteq> Returns (Some ErrDBAlreadyInitialized)"
  by (simp add: initDB_def ErrDBAlreadyInitialized_def)

subsection \<open>The bootstrap swallows a failed creation\<close>



subsection \<open>GetEnrollmentCert on a healthy store\<close>

lemma connect_holds: "holds_table d w t \<Longrightarrow> connect (sqlDB d) w = Inr w"
  by (auto simp: holds_table_def connect_def file_table_def split: option.splits)

lemma holds_table_logf [simp]: "holds_table d (logf l m w) t = holds_table d w t"
  by (simp add: holds_table_def file_table_def)


lemma file_table_upd [simp]:
  "file_table n (w\<lparr>txs := a\<rparr>) = file_table n w"
  "file_table n (w\<lparr>ext := b\<rparr>) = file_table n w"
  "file_table n (w\<lparr>faults := c\<rparr>) = file_table n w"
  "file_table n (w\<lparr>logs := l\<rparr>) = file_table n w"
  "file_table n (w\<lparr>pools := p\<rparr>) = file_table n w"
  "file_table n (w\<lparr>isOpen := b'\<rparr>) = file_table n w"
  "file_table n (w\<lparr>db := d'\<rparr>) = file_table n w"
  "file_table n (logf l' m w) = file_table n w"
  by (simp_all add: file_table_def)

lemma holds_table_upd [simp]:
  "holds_table d (w\<lparr>txs := a\<rparr>) t = holds_table d w t"
  "holds_table d (w\<lparr>ext := b\<rparr>) t = holds_table d w t"
  "holds_table d (w\<lparr>faults := c\<rparr>) t = holds_table d w t"
  "holds_table d (w\<lparr>logs := l\<rparr>) t = holds_table d w t"
  by (simp_all add: holds_table_def)

lemma set_table_simps [simp]:
  "pools (set_table n t w) = pools w" "txs (set_table n t w) = txs w" "faults (set_table n t w) = faults w"
  "ext (set_table n t w) = ext w" "logs (set_table n t w) = logs w" "isOpen (set_table n t w) = isOpen w"
  "db (set_table n t w) = db w"
  by (simp_all add: set_table_def split: option.splits)

lemma holds_table_set_table:
  "holds_table d w t \<Longrightarrow> holds_table d (set_table (dsn (pools w ! sqlDB d)) t' w) t'"
  by (auto simp: holds_table_def set_table_def file_table_def update_conv' split: option.splits)

text \<open>The storage calls on a healthy store, by what the environment has scheduled.\<close>

lemma QueryRow_healthy:
  assumes "holds_table d w t"
  shows "sql_QueryRow (sqlDB d) k w =
     (case faults w QUERY of
        [] \<Rightarrow> (Inr (map_of t k), w)
      | None # qs \<Rightarrow> (Inr (map_of t k), w\<lparr>faults := (faults w)(QUERY := qs)\<rparr>)
      | Some e # qs \<Rightarrow> (Inl e, w\<lparr>faults := (faults w)(QUERY := qs)\<rparr>))"
proof -
  have "\<And>fs. connect (sqlDB d) (w\<lparr>faults := fs\<rparr>) = Inr (w\<lparr>faults := fs\<rparr>)"
    using assms by (intro connect_holds [where t = t]) simp
  moreover have "file_table (dsn (pools w ! sqlDB d)) w = Some t"
    using assms by (simp add: holds_table_def)
  ultimately show ?thesis
    using connect_holds [OF assms]
    by (simp add: sql_QueryRow_def fault_def split: list.splits option.splits)
qed

lemma select_healthy:
  assumes "holds_table d w t"
  shows "selectEnrollmentCert d k w =
     (let w1 = logf INFO ''Select Enrollment TCert...'' (w\<lparr>faults := (faults w)(QUERY := tl (faults w QUERY))\<rparr>);
          found = (\<lambda>v. ((scan_bytes v, None),
                    logf INFO ''Select Enrollment Cert...done!'' (logf INFO ''cert %s'' w1)))
      in case faults w QUERY of
           Some e # qs \<Rightarrow> if e = ErrNoRows then ((None, None), w1)
                         else ((None, Some e), logf ERROR ''Error during select: %s'' w1)
         | qs \<Rightarrow> (case map_of t k of None \<Rightarrow> ((None, None), w1) | Some v \<Rightarrow> found v))"
proof -
  have h: "holds_table d (logf INFO ''Select Enrollment TCert...'' w) t"
    using assms by simp
  have id: "(w\<lparr>faults := (faults w)(QUERY := [])\<rparr>) = w" if "faults w QUERY = []"
    using that by (simp add: fun_upd_idem)
  show ?thesis
    unfolding selectEnrollmentCert_def Let_def QueryRow_healthy [OF h]
    by (cases "faults w QUERY")
      (auto simp: row_Scan_def Let_def logf_def fun_upd_idem split: option.splits list.splits)
qed


lemma Begin_healthy:
  "holds_table d w t \<Longrightarrow> faults w BEGIN = [] \<Longrightarrow>
   sql_Begin (sqlDB d) w
     = (Inr (length (txs w)), w\<lparr>txs := txs w @ [\<lparr>tx_pool = sqlDB d, tx_writes = [], tx_done = False\<rparr>]\<rparr>)"
  by (simp add: sql_Begin_def fault_def connect_holds)

lemma insert_healthy:
  assumes "holds_table d w t" and "txs w = ts @ [\<lparr>tx_pool = sqlDB d, tx_writes = [], tx_done = False\<rparr>]"
  shows "tx_Exec_insert (length ts) k c w =
     (case faults w TX_EXEC of
        Some e # fs \<Rightarrow> (Some e, w\<lparr>faults := (faults w)(TX_EXEC := fs)\<rparr>)
      | None # fs \<Rightarrow>
          (if map_of t k \<noteq> None
           then (Some (SqliteError ''UNIQUE constraint failed: Certificates.id''), w\<lparr>faults := (faults w)(TX_EXEC := fs)\<rparr>)
           else (None, w\<lparr>faults := (faults w)(TX_EXEC := fs),
                   txs := ts @ [\<lparr>tx_pool = sqlDB d, tx_writes = [(k, bind_bytes c)], tx_done = False\<rparr>]\<rparr>))
      | [] \<Rightarrow>
          (if map_of t k \<noteq> None
           then (Some (SqliteError ''UNIQUE constraint failed: Certificates.id''), w)
           else (None, w\<lparr>txs := ts @ [\<lparr>tx_pool = sqlDB d, tx_writes = [(k, bind_bytes c)], tx_done = False\<rparr>]\<rparr>)))"
proof -
  have "file_table (dsn (pools w ! sqlDB d)) w = Some t"
    using assms(1) by (simp add: holds_table_def)
  then show ?thesis
    using assms(2) by (auto simp: tx_Exec_insert_def fault_def split: list.splits option.splits)
qed

lemma commit_healthy:
  assumes "holds_table d w t" and "txs w = ts @ [\<lparr>tx_pool = sqlDB d, tx_writes = ws, tx_done = False\<rparr>]"
    and "faults w COMMIT = []"
  shows "tx_Commit (length ts) w =
     (None, set_table (dsn (pools w ! sqlDB d)) (t @ ws)
              (w\<lparr>txs := ts @ [\<lparr>tx_pool = sqlDB d, tx_writes = ws, tx_done = True\<rparr>]\<rparr>))"
proof -
  have "file_table (dsn (pools w ! sqlDB d)) w = Some t"
    using assms(1) by (simp add: holds_table_def)
  then show ?thesis
    using assms(2,3) by (simp add: tx_Commit_def fault_def)
qed

text \<open>\<^verbatim>\<open>GetEnrollmentCert\<close> after a lookup that found nothing and a fetch that succeeded,
  up to the insert.\<close>

lemma miss_to_insert:
  assumes sel: "selectEnrollmentCert d (EncodeBase64 cf ident) w = ((None, None), w1)"
    and h1: "holds_table d w1 t" and beg: "faults w1 BEGIN = []"
    and fetch: "certFetcher ident (ext w1) = ((C, None), x)"
  defines "w7 \<equiv> logf INFO ''Insert cert %s'' (logf INFO ''Insert id %s''
      ((logf INFO ''Store certificate...''
         ((logf INFO ''Fectch Enrollment Certificate from ECA...''
            (logf INFO ''GetEnrollmentCert:cert %s'' w1))\<lparr>ext := x\<rparr>))
       \<lparr>txs := txs w1 @ [\<lparr>tx_pool = sqlDB d, tx_writes = [], tx_done = False\<rparr>]\<rparr>))"
  shows "GetEnrollmentCert cf d ident certFetcher w =
     (case tx_Exec_insert (length (txs w1)) (EncodeBase64 cf ident) C w7 of
        (err, w8) \<Rightarrow>
          if err \<noteq> None
          then ((None, err), tx_Rollback (length (txs w1)) (logf ERROR ''Failed inserting cert %s'' w8))
          else (case tx_Commit (length (txs w1)) w8 of
                  (err, w9) \<Rightarrow>
                    if err \<noteq> None
                    then ((None, err),
                          tx_Rollback (length (txs w1)) (logf ERROR ''Failed committing transaction: %s'' w9))
                    else (case selectEnrollmentCert d (EncodeBase64 cf ident)
                                 (logf INFO ''Fectch Enrollment Certificate from ECA...done!'' w9) of
                            ((cert, err), w11) \<Rightarrow>
                              if err \<noteq> None
                              then ((None, err),
                                    logf ERROR ''Failed selecting next TCert after fetching: %s'' w11)
                              else ((cert, None), w11))))"
proof -
  let ?w5 = "logf INFO ''Store certificate...''
         ((logf INFO ''Fectch Enrollment Certificate from ECA...''
            (logf INFO ''GetEnrollmentCert:cert %s'' w1))\<lparr>ext := x\<rparr>)"
  have "holds_table d ?w5 t" "faults ?w5 BEGIN = []"
    using h1 beg by simp_all
  from Begin_healthy [OF this]
  have "sql_Begin (sqlDB d) ?w5
      = (Inr (length (txs w1)), ?w5\<lparr>txs := txs w1 @ [\<lparr>tx_pool = sqlDB d, tx_writes = [], tx_done = False\<rparr>]\<rparr>)"
    by simp
  then show ?thesis
    using fetch by (simp add: GetEnrollmentCert_def sel w7_def split: prod.splits)
qed

text \<open>... and up to the second lookup, when insert and commit go through.\<close>

lemma miss_to_reread:
  assumes sel: "selectEnrollmentCert d (EncodeBase64 cf ident) w = ((None, None), w1)"
    and h1: "holds_table d w1 t" and absent: "map_of t (EncodeBase64 cf ident) = None"
    and sched: "faults w1 BEGIN = []" "faults w1 TX_EXEC = []" "faults w1 COMMIT = []"
    and fetch: "certFetcher ident (ext w1) = ((C, None), x)"
  shows "\<exists>w10. holds_table d w10 (t @ [(EncodeBase64 cf ident, bind_bytes C)]) \<and>
           faults w10 = faults w1 \<and> pools w10 = pools w1 \<and> ext w10 = x \<and>
           GetEnrollmentCert cf d ident certFetcher w =
             (case selectEnrollmentCert d (EncodeBase64 cf ident) w10 of
                ((cert, err), w11) \<Rightarrow>
                  if err \<noteq> None
                  then ((None, err), logf ERROR ''Failed selecting next TCert after fetching: %s'' w11)
                  else ((cert, None), w11))"
proof -
  let ?k = "EncodeBase64 cf ident"
  let ?t' = "t @ [(?k, bind_bytes C)]"
  define w7 where "w7 = logf INFO ''Insert cert %s'' (logf INFO ''Insert id %s''
      ((logf INFO ''Store certificate...''
         ((logf INFO ''Fectch Enrollment Certificate from ECA...''
            (logf INFO ''GetEnrollmentCert:cert %s'' w1))\<lparr>ext := x\<rparr>))
       \<lparr>txs := txs w1 @ [\<lparr>tx_pool = sqlDB d, tx_writes = [], tx_done = False\<rparr>]\<rparr>))"
  have h7: "holds_table d w7 t" "faults w7 = faults w1" "pools w7 = pools w1" "ext w7 = x"
    "txs w7 = txs w1 @ [\<lparr>tx_pool = sqlDB d, tx_writes = [], tx_done = False\<rparr>]"
    using h1 by (simp_all add: w7_def)
  define w8 where "w8 = w7\<lparr>txs := txs w1 @ [\<lparr>tx_pool = sqlDB d, tx_writes = [(?k, bind_bytes C)], tx_done = False\<rparr>]\<rparr>"
  have ins: "tx_Exec_insert (length (txs w1)) ?k C w7 = (None, w8)"
    using insert_healthy [OF h7(1) h7(5)] absent sched(2) h7(2) by (simp add: w8_def)
  have h8: "holds_table d w8 t" "faults w8 = faults w1" "pools w8 = pools w1" "ext w8 = x"
    "txs w8 = txs w1 @ [\<lparr>tx_pool = sqlDB d, tx_writes = [(?k, bind_bytes C)], tx_done = False\<rparr>]"
    using h7 by (simp_all add: w8_def)
  define w9 where "w9 = set_table (dsn (pools w1 ! sqlDB d)) ?t'
      (w8\<lparr>txs := txs w1 @ [\<lparr>tx_pool = sqlDB d, tx_writes = [(?k, bind_bytes C)], tx_done = True\<rparr>]\<rparr>)"
  have com: "tx_Commit (length (txs w1)) w8 = (None, w9)"
    using commit_healthy [OF h8(1) h8(5)] sched(3) h8(2,3) by (simp add: w9_def)
  have "holds_table d (w8\<lparr>txs := txs w1 @ [\<lparr>tx_pool = sqlDB d, tx_writes = [(?k, bind_bytes C)], tx_done = True\<rparr>]\<rparr>) t"
    using h8(1) by simp
  from holds_table_set_table [OF this, of ?t']
  have h9: "holds_table d w9 ?t'" "faults w9 = faults w1" "pools w9 = pools w1" "ext w9 = x"
    using h8 by (simp_all add: w9_def)
  define w10 where "w10 = logf INFO ''Fectch Enrollment Certificate from ECA...done!'' w9"
  have h10: "holds_table d w10 ?t'" "faults w10 = faults w1" "pools w10 = pools w1" "ext w10 = x"
    using h9 by (simp_all add: w10_def)
  have "GetEnrollmentCert cf d ident certFetcher w =
      (case selectEnrollmentCert d ?k w10 of
         ((cert, err), w11) \<Rightarrow>
           if err \<noteq> None
           then ((None, err), logf ERROR ''Failed selecting next TCert after fetching: %s'' w11)
           else ((cert, None), w11))"
    using miss_to_insert [where certFetcher = certFetcher and ident = ident and cf = cf, OF sel h1 sched(1) fetch] ins com
    by (simp add: w7_def [symmetric] w10_def [symmetric])
  with h10 show ?thesis by blast
qed


text \<open>
  Claim C2, as amended. When the stored record of an identity holds a certificate that is
  not NULL and the lookup goes through, \<^verbatim>\<open>GetEnrollmentCert\<close> returns that certificate
  and, apart from four log lines, leaves the world as it was, whatever the fetcher is: the
  fetcher is not invoked.
\<close>

theorem GetEnrollmentCert_hit:
  assumes "holds_table d w t" and "faults w QUERY = []"
    and "map_of t (EncodeBase64 cf ident) = Some (Blob c)"
  shows "GetEnrollmentCert cf d ident certFetcher w = ((Some c, None),
     w\<lparr>logs := logs w @ [(INFO, ''Select Enrollment TCert...''), (INFO, ''cert %s''),
        (INFO, ''Select Enrollment Cert...done!''), (INFO, ''GetEnrollmentCert:cert %s'')]\<rparr>)"
  using assms(2,3)
  by (simp add: GetEnrollmentCert_def select_healthy [OF assms(1)] fun_upd_idem logf_def)

theorem GetEnrollmentCert_hit_witness:
  "holds_table d0 (w_store [(''AQI='', Blob [0xAA, 0xBB])]) [(''AQI='', Blob [0xAA, 0xBB])] \<and>
   fst (GetEnrollmentCert example_conf d0 id0 fetch_fails (w_store [(''AQI='', Blob [0xAA, 0xBB])]))
     = (cert0, None) \<and>
   ext (snd (GetEnrollmentCert example_conf d0 id0 fetch_fails (w_store [(''AQI='', Blob [0xAA, 0xBB])]))) = 0"
proof -
  let ?t = "[(''AQI='', Blob [0xAA, 0xBB])]"
  have a: "holds_table d0 (w_store ?t) ?t" "faults (w_store ?t) QUERY = []"
    "map_of ?t (EncodeBase64 example_conf id0) = Some (Blob [0xAA, 0xBB])"
    by (simp_all add: example_defs)
  from GetEnrollmentCert_hit [where certFetcher = fetch_fails, OF a]
  show ?thesis using a(1) by (simp add: cert0_def) (simp add: w_store_def)
qed

text \<open>A record whose certificate is NULL, left by a fetch that returned nil, is taken for a
  miss: the fetcher is invoked again.\<close>

theorem GetEnrollmentCert_null_record_counterexample:
  "record_at ''client.db'' ''AQI='' (snd (GetEnrollmentCert example_conf d0 id0 (fetch_returns None) (w_store [])))
     = Some Null \<and>
   fst (GetEnrollmentCert example_conf d0 id0 fetch_fails
          (snd (GetEnrollmentCert example_conf d0 id0 (fetch_returns None) (w_store []))))
     = (None, Some (ErrorString ''ECA unreachable'')) \<and>
   ext (snd (GetEnrollmentCert example_conf d0 id0 (fetch_returns None) (w_store []))) = 1 \<and>
   ext (snd (GetEnrollmentCert example_conf d0 id0 fetch_fails
          (snd (GetEnrollmentCert example_conf d0 id0 (fetch_returns None) (w_store []))))) = 2"
  by code_simp

text \<open>
  Claim C1. On an open store without a record for the identity, with no storage failure,
  a fetch that returns the bytes \<open>C\<close> makes \<^verbatim>\<open>GetEnrollmentCert\<close> append the record
  (key of the identity, \<open>C\<close>) to the table and return \<open>C\<close> with a nil error.
\<close>

theorem GetEnrollmentCert_miss_then_fetch:
  assumes "holds_table d w t" and "map_of t (EncodeBase64 cf ident) = None"
    and "faults w QUERY = []" and "faults w BEGIN = []" and "faults w TX_EXEC = []" and "faults w COMMIT = []"
    and "certFetcher ident (ext w) = ((C, None), x)"
  shows "fst (GetEnrollmentCert cf d ident certFetcher w) = (C, None) \<and>
     file_table (dsn (pools w ! sqlDB d)) (snd (GetEnrollmentCert cf d ident certFetcher w))
           = Some (t @ [(EncodeBase64 cf ident, bind_bytes C)]) \<and>
     ext (snd (GetEnrollmentCert cf d ident certFetcher w)) = x"
proof -
  let ?k = "EncodeBase64 cf ident"
  let ?w1 = "logf INFO ''Select Enrollment TCert...'' w"
  have sel: "selectEnrollmentCert d ?k w = ((None, None), ?w1)"
    using assms(2,3) by (simp add: select_healthy [OF assms(1)] fun_upd_idem)
  have h1: "holds_table d ?w1 t" "faults ?w1 BEGIN = []" "faults ?w1 TX_EXEC = []" "faults ?w1 COMMIT = []"
    "certFetcher ident (ext ?w1) = ((C, None), x)"
    using assms by simp_all
  from miss_to_reread [where certFetcher = certFetcher and ident = ident and cf = cf, OF sel h1(1) assms(2) h1(2-5)]
  obtain w10 where h10: "holds_table d w10 (t @ [(?k, bind_bytes C)])" "faults w10 = faults ?w1"
      "pools w10 = pools ?w1" "ext w10 = x"
    and run: "GetEnrollmentCert cf d ident certFetcher w =
             (case selectEnrollmentCert d ?k w10 of
                ((cert, err), w11) \<Rightarrow>
                  if err \<noteq> None
                  then ((None, err), logf ERROR ''Failed selecting next TCert after fetching: %s'' w11)
                  else ((cert, None), w11))"
    by blast
  have look: "map_of (t @ [(?k, bind_bytes C)]) ?k = Some (bind_bytes C)"
    using assms(2) by (simp add: map_add_Some_iff)
  have "file_table (dsn (pools w ! sqlDB d)) w10 = Some (t @ [(?k, bind_bytes C)])"
    using h10(1,3) by (simp add: holds_table_def)
  then show ?thesis
    using h10(2,4) assms(3) look by (simp add: run select_healthy [OF h10(1)])
qed

theorem GetEnrollmentCert_miss_then_fetch_witness:
  "holds_table d0 (w_store []) [] \<and>
   fetch_returns cert0 id0 (ext (w_store [])) = ((cert0, None), 1) \<and>
   fst (GetEnrollmentCert example_conf d0 id0 (fetch_returns cert0) (w_store [])) = (cert0, None) \<and>
   file_table ''client.db'' (snd (GetEnrollmentCert example_conf d0 id0 (fetch_returns cert0) (w_store [])))
     = Some [(''AQI='', Blob [0xAA, 0xBB])] \<and>
   ext (snd (GetEnrollmentCert example_conf d0 id0 (fetch_returns cert0) (w_store []))) = 1"
proof -
  have a: "holds_table d0 (w_store []) []" "map_of [] (EncodeBase64 example_conf id0) = None"
    "faults (w_store []) QUERY = []" "faults (w_store []) BEGIN = []"
    "faults (w_store []) TX_EXEC = []" "faults (w_store []) COMMIT = []"
    "fetch_returns cert0 id0 (ext (w_store [])) = ((cert0, None), 1)"
    by (simp_all add: example_defs)
  have b: "dsn (pools (w_store []) ! sqlDB d0) = ''client.db''" "EncodeBase64 example_conf id0 = ''AQI=''"
    "bind_bytes cert0 = Blob [0xAA, 0xBB]"
    by (simp_all add: example_defs)
  from GetEnrollmentCert_miss_then_fetch [where certFetcher = "fetch_returns cert0" and ident = id0, OF a]
  show ?thesis using a(1,7) by (simp add: b)
qed

text \<open>
  Claim C3, as amended. In the miss path, after insert and commit went through, the
  outcome \<open>f\<close> scheduled for the second lookup decides the result: an error other than
  \<^verbatim>\<open>sql.ErrNoRows\<close> is returned as it is; no row makes the call return a nil certificate
  with a nil error; otherwise the stored value is returned with a nil error, and that
  value is nil when the fetched certificate was nil.
\<close>

theorem GetEnrollmentCert_reread:
  assumes "holds_table d w t" and "map_of t (EncodeBase64 cf ident) = None"
    and "faults w QUERY = [None, f]" and "faults w BEGIN = []" and "faults w TX_EXEC = []" and "faults w COMMIT = []"
    and "certFetcher ident (ext w) = ((C, None), x)"
  shows "fst (GetEnrollmentCert cf d ident certFetcher w) =
       (case f of None \<Rightarrow> (C, None) | Some e \<Rightarrow> if e = ErrNoRows then (None, None) else (None, Some e)) \<and>
     file_table (dsn (pools w ! sqlDB d)) (snd (GetEnrollmentCert cf d ident certFetcher w))
           = Some (t @ [(EncodeBase64 cf ident, bind_bytes C)])"
proof -
  let ?k = "EncodeBase64 cf ident"
  let ?w1 = "logf INFO ''Select Enrollment TCert...'' (w\<lparr>faults := (faults w)(QUERY := [f])\<rparr>)"
  have sel: "selectEnrollmentCert d ?k w = ((None, None), ?w1)"
    using assms(2,3) by (simp add: select_healthy [OF assms(1)])
  have h1: "holds_table d ?w1 t" "faults ?w1 BEGIN = []" "faults ?w1 TX_EXEC = []" "faults ?w1 COMMIT = []"
    "certFetcher ident (ext ?w1) = ((C, None), x)"
    using assms by simp_all
  from miss_to_reread [where certFetcher = certFetcher and ident = ident and cf = cf, OF sel h1(1) assms(2) h1(2-5)]
  obtain w10 where h10: "holds_table d w10 (t @ [(?k, bind_bytes C)])" "faults w10 = faults ?w1"
      "pools w10 = pools ?w1" "ext w10 = x"
    and run: "GetEnrollmentCert cf d ident certFetcher w =
             (case selectEnrollmentCert d ?k w10 of
                ((cert, err), w11) \<Rightarrow>
                  if err \<noteq> None
                  then ((None, err), logf ERROR ''Failed selecting next TCert after fetching: %s'' w11)
                  else ((cert, None), w11))"
    by blast
  have look: "map_of (t @ [(?k, bind_bytes C)]) ?k = Some (bind_bytes C)"
    using assms(2) by (simp add: map_add_Some_iff)
  have "file_table (dsn (pools w ! sqlDB d)) w10 = Some (t @ [(?k, bind_bytes C)])"
    using h10(1,3) by (simp add: holds_table_def)
  then show ?thesis
    using h10(2) look by (cases f) (simp_all add: run select_healthy [OF h10(1)])
qed

theorem GetEnrollmentCert_reread_witness:
  "holds_table d0 (w_store []) [] \<and>
   fst (GetEnrollmentCert example_conf d0 id0 (fetch_returns cert0)
          (w_store []\<lparr>faults := (\<lambda>c. [])(QUERY := [None, Some (SqliteError ''disk I/O error'')])\<rparr>))
     = (None, Some (SqliteError ''disk I/O error'')) \<and>
   fst (GetEnrollmentCert example_conf d0 id0 (fetch_returns cert0)
          (w_store []\<lparr>faults := (\<lambda>c. [])(QUERY := [None, Some ErrNoRows])\<rparr>))
     = (None, None) \<and>
   file_table ''client.db'' (snd (GetEnrollmentCert example_conf d0 id0 (fetch_returns cert0)
          (w_store []\<lparr>faults := (\<lambda>c. [])(QUERY := [None, Some ErrNoRows])\<rparr>)))
     = Some [(''AQI='', Blob [0xAA, 0xBB])]"
proof -
  let ?w = "\<lambda>e. w_store []\<lparr>faults := (\<lambda>c. [])(QUERY := [None, Some e])\<rparr>"
  have a: "holds_table d0 (?w e) []" "map_of [] (EncodeBase64 example_conf id0) = None"
    "faults (?w e) QUERY = [None, Some e]" "faults (?w e) BEGIN = []"
    "faults (?w e) TX_EXEC = []" "faults (?w e) COMMIT = []"
    "fetch_returns cert0 id0 (ext (?w e)) = ((cert0, None), 1)" for e
    by (simp_all add: example_defs)
  have b: "dsn (pools (w_store []) ! sqlDB d0) = ''client.db''" "EncodeBase64 example_conf id0 = ''AQI=''"
    "bind_bytes cert0 = Blob [0xAA, 0xBB]"
    by (simp_all add: example_defs)
  have c: "holds_table d0 (w_store []) []"
    by (simp add: example_defs)
  from GetEnrollmentCert_reread [where certFetcher = "fetch_returns cert0" and ident = id0, OF a]
  have "fst (GetEnrollmentCert example_conf d0 id0 (fetch_returns cert0) (?w e)) =
          (if e = ErrNoRows then (None, None) else (None, Some e)) \<and>
        file_table ''client.db'' (snd (GetEnrollmentCert example_conf d0 id0 (fetch_returns cert0) (?w e)))
          = Some [(''AQI='', Blob [0xAA, 0xBB])]" for e
    by (simp add: b)
  from this [of "SqliteError ''disk I/O error''"] this [of ErrNoRows] c
  show ?thesis by simp
qed

text \<open>Success with a nil certificate: when the second lookup finds no row, and when the
  fetched certificate is nil.\<close>

theorem GetEnrollmentCert_reread_counterexample:
  "fst (GetEnrollmentCert example_conf d0 id0 (fetch_returns cert0)
          (w_store []\<lparr>faults := (\<lambda>c. [])(QUERY := [None, Some ErrNoRows])\<rparr>))
     = (None, None) \<and>
   fst (GetEnrollmentCert example_conf d0 id0 (fetch_returns None) (w_store [])) = (None, None) \<and>
   file_table ''client.db'' (snd (GetEnrollmentCert example_conf d0 id0 (fetch_returns None) (w_store [])))
     = Some [(''AQI='', Null)]"
  by code_simp

text \<open>
  Claim C4. In the miss path, when the insert fails, by a failure of the storage engine
  or by the primary key refusing the id, \<^verbatim>\<open>GetEnrollmentCert\<close> returns that error with
  a nil certificate, the files are what they were, and the transaction it began is done
  with nothing pending.
\<close>

theorem GetEnrollmentCert_insert_fails:
  assumes "holds_table d w t"
    and "map_of t (EncodeBase64 cf ident) = None \<or> map_of t (EncodeBase64 cf ident) = Some Null"
    and "faults w QUERY = []" and "faults w BEGIN = []"
    and "certFetcher ident (ext w) = ((C, None), x)"
    and "faults w TX_EXEC = Some e # fs \<or>
           (faults w TX_EXEC = [] \<and> map_of t (EncodeBase64 cf ident) = Some Null \<and>
            e = SqliteError ''UNIQUE constraint failed: Certificates.id'')"
  shows "fst (GetEnrollmentCert cf d ident certFetcher w) = (None, Some e) \<and>
     dbdir (snd (GetEnrollmentCert cf d ident certFetcher w)) = dbdir w \<and>
     txs (snd (GetEnrollmentCert cf d ident certFetcher w))
       = txs w @ [\<lparr>tx_pool = sqlDB d, tx_writes = [], tx_done = True\<rparr>]"
proof -
  let ?k = "EncodeBase64 cf ident"
  obtain w1 where sel: "selectEnrollmentCert d ?k w = ((None, None), w1)"
    and h1: "holds_table d w1 t" "faults w1 = faults w" "ext w1 = ext w" "txs w1 = txs w" "dbdir w1 = dbdir w"
    using assms(1,2,3) by (auto simp: select_healthy [OF assms(1)] fun_upd_idem)
  have f1: "faults w1 BEGIN = []" "certFetcher ident (ext w1) = ((C, None), x)"
    using assms h1 by simp_all
  define w7 where "w7 = logf INFO ''Insert cert %s'' (logf INFO ''Insert id %s''
      ((logf INFO ''Store certificate...''
         ((logf INFO ''Fectch Enrollment Certificate from ECA...''
            (logf INFO ''GetEnrollmentCert:cert %s'' w1))\<lparr>ext := x\<rparr>))
       \<lparr>txs := txs w1 @ [\<lparr>tx_pool = sqlDB d, tx_writes = [], tx_done = False\<rparr>]\<rparr>))"
  have h7: "holds_table d w7 t" "faults w7 = faults w" "dbdir w7 = dbdir w"
    "txs w7 = txs w1 @ [\<lparr>tx_pool = sqlDB d, tx_writes = [], tx_done = False\<rparr>]"
    using h1 by (simp_all add: w7_def)
  obtain w8 where ins: "tx_Exec_insert (length (txs w1)) ?k C w7 = (Some e, w8)"
    and h8: "txs w8 = txs w7" "dbdir w8 = dbdir w7"
    using assms(6) h7(2) by (auto simp: insert_healthy [OF h7(1) h7(4)])
  have "GetEnrollmentCert cf d ident certFetcher w =
      ((None, Some e), tx_Rollback (length (txs w1)) (logf ERROR ''Failed inserting cert %s'' w8))"
    using miss_to_insert [where certFetcher = certFetcher and ident = ident and cf = cf, OF sel h1(1) f1] ins
    by (simp add: w7_def [symmetric])
  then show ?thesis
    using h8 h7(3,4) h1(4) by (simp add: tx_Rollback_def)
qed

theorem GetEnrollmentCert_insert_fails_witness:
  "holds_table d0 (w_store [(''AQI='', Null)]) [(''AQI='', Null)] \<and>
   fst (GetEnrollmentCert example_conf d0 id0 (fetch_returns cert0) (w_store [(''AQI='', Null)]))
     = (None, Some (SqliteError ''UNIQUE constraint failed: Certificates.id'')) \<and>
   dbdir (snd (GetEnrollmentCert example_conf d0 id0 (fetch_returns cert0) (w_store [(''AQI='', Null)])))
     = Some [(''client.db'', Some [(''AQI='', Null)])] \<and>
   txs (snd (GetEnrollmentCert example_conf d0 id0 (fetch_returns cert0) (w_store [(''AQI='', Null)])))
     = [\<lparr>tx_pool = 0, tx_writes = [], tx_done = True\<rparr>] \<and>
   fst (GetEnrollmentCert example_conf d0 id0 (fetch_returns cert0)
          (w_store []\<lparr>faults := (\<lambda>c. [])(TX_EXEC := [Some (SqliteError ''database is locked'')])\<rparr>))
     = (None, Some (SqliteError ''database is locked'')) \<and>
   dbdir (snd (GetEnrollmentCert example_conf d0 id0 (fetch_returns cert0)
          (w_store []\<lparr>faults := (\<lambda>c. [])(TX_EXEC := [Some (SqliteError ''database is locked'')])\<rparr>)))
     = Some [(''client.db'', Some [])]"
proof -
  let ?t = "[(''AQI='', Null)]"
  let ?u = "SqliteError ''UNIQUE constraint failed: Certificates.id''"
  let ?e = "SqliteError ''database is locked''"
  let ?v = "w_store []\<lparr>faults := (\<lambda>c. [])(TX_EXEC := [Some ?e])\<rparr>"
  have a: "holds_table d0 (w_store ?t) ?t"
    "map_of ?t (EncodeBase64 example_conf id0) = None \<or> map_of ?t (EncodeBase64 example_conf id0) = Some Null"
    "faults (w_store ?t) QUERY = []" "faults (w_store ?t) BEGIN = []"
    "fetch_returns cert0 id0 (ext (w_store ?t)) = ((cert0, None), 1)"
    "faults (w_store ?t) TX_EXEC = Some ?u # [] \<or>
       (faults (w_store ?t) TX_EXEC = [] \<and> map_of ?t (EncodeBase64 example_conf id0) = Some Null \<and> ?u = ?u)"
    by (simp_all add: example_defs)
  have b: "holds_table d0 ?v []"
    "map_of [] (EncodeBase64 example_conf id0) = None \<or> map_of [] (EncodeBase64 example_conf id0) = Some Null"
    "faults ?v QUERY = []" "faults ?v BEGIN = []"
    "fetch_returns cert0 id0 (ext ?v) = ((cert0, None), 1)"
    "faults ?v TX_EXEC = Some ?e # [] \<or>
       (faults ?v TX_EXEC = [] \<and> map_of [] (EncodeBase64 example_conf id0) = Some Null \<and>
        ?e = SqliteError ''UNIQUE constraint failed: Certificates.id'')"
    by (simp_all add: example_defs)
  have c: "dbdir (w_store ?t) = Some [(''client.db'', Some ?t)]" "txs (w_store ?t) = []" "sqlDB d0 = 0"
    "dbdir ?v = Some [(''client.db'', Some [])]"
    by (simp_all add: w_store_def d0_def)
  from GetEnrollmentCert_insert_fails [where certFetcher = "fetch_returns cert0" and ident = id0, OF a]
    GetEnrollmentCert_insert_fails [where certFetcher = "fetch_returns cert0" and ident = id0, OF b]
  show ?thesis using a(1) by (simp add: c)
qed

subsection \<open>The bootstrap: createDB, createDBIfDBPathEmpty\<close>

lemma same_process_refl [simp]: "same_process w w"
  by (simp add: same_process_def)

lemma same_process_trans: "same_process w w' \<Longrightarrow> same_process w' w'' \<Longrightarrow> same_process w w''"
  by (simp add: same_process_def)

lemma same_process_logf [simp]:
  "same_process w (logf l m w') = same_process w w'" "same_process (logf l m w) w' = same_process w w'"
  by (simp_all add: same_process_def)

lemma fault_process: "fault c w = (r, w') \<Longrightarrow> same_process w w'"
  by (auto simp: fault_def same_process_def split: list.splits)

lemma connect_process: "connect h w = Inr w' \<Longrightarrow> same_process w w'"
  by (auto simp: connect_def same_process_def split: if_splits option.splits)

lemma MkdirAll_process: "os_MkdirAll w = (r, w') \<Longrightarrow> same_process w w'"
  by (auto simp: os_MkdirAll_def split: prod.splits option.splits dest!: fault_process)
     (simp_all add: same_process_def)

lemma Ping_process: "sql_Ping h w = (r, w') \<Longrightarrow> same_process w w'"
  by (auto simp: sql_Ping_def split: prod.splits option.splits sum.splits
      dest!: fault_process connect_process intro: same_process_trans)

lemma set_table_process [simp]: "same_process w (set_table n t w') = same_process w w'"
  by (simp add: same_process_def)

lemma Exec_create_process: "sql_Exec_create h w = (r, w') \<Longrightarrow> same_process w w'"
  by (auto simp: sql_Exec_create_def split: prod.splits option.splits sum.splits
      dest!: fault_process connect_process intro: same_process_trans)

lemma Open_process:
  "sql_Open n w = (r, w') \<Longrightarrow>
   db w' = db w \<and> isOpen w' = isOpen w \<and>
   (case r of Inl e \<Rightarrow> pools w' = pools w
            | Inr h \<Rightarrow> h = length (pools w) \<and> pools w' = pools w @ [\<lparr>dsn = n, closed = False\<rparr>])"
  by (auto simp: sql_Open_def same_process_def split: prod.splits option.splits dest!: fault_process)

lemma createDB_process:
  assumes "createDB cf w = (r, w')"
  shows "db w' = db w \<and> isOpen w' = isOpen w \<and>
     (pools w' = pools w \<or>
      (r = Exits \<and> pools w' = pools w @ [\<lparr>dsn = getDBName, closed = False\<rparr>]) \<or>
      (r \<noteq> Exits \<and> pools w' = pools w @ [\<lparr>dsn = getDBName, closed = True\<rparr>]))"
proof -
  let ?w1 = "logf DEBUG ''Creating DB at [%s]'' w"
  obtain e2 w2 where mk: "os_MkdirAll ?w1 = (e2, w2)"
    by (cases "os_MkdirAll ?w1")
  have p2: "same_process w w2"
    using MkdirAll_process [OF mk] by simp
  obtain r4 w4 where op: "sql_Open getDBName (logf DEBUG ''Open DB at [%s]'' w2) = (r4, w4)"
    by (cases "sql_Open getDBName (logf DEBUG ''Open DB at [%s]'' w2)")
  note p4 = Open_process [OF op]
  show ?thesis
  proof (cases "fst (FileMissing ?w1 (getDBFilename cf))")
    case False
    then show ?thesis
      using assms by (auto simp: createDB_def Let_def split: prod.splits)
  next
    case True
    show ?thesis
    proof (cases r4)
      case (Inl e)
      then show ?thesis
        using assms True mk op p2 p4 by (auto simp: createDB_def Let_def same_process_def split: prod.splits)
    next
      case (Inr h)
      obtain e6 w6 where pg: "sql_Ping h (logf DEBUG ''Ping DB at [%s]'' w4) = (e6, w6)"
        by (cases "sql_Ping h (logf DEBUG ''Ping DB at [%s]'' w4)")
      have p6: "same_process w4 w6"
        using Ping_process [OF pg] by simp
      obtain e8 w8 where ex: "sql_Exec_create h (logf DEBUG ''Create Table [%s] at [%s]'' w6) = (e8, w8)"
        by (cases "sql_Exec_create h (logf DEBUG ''Create Table [%s] at [%s]'' w6)")
      have p8: "same_process w6 w8"
        using Exec_create_process [OF ex] by simp
      show ?thesis
        using assms True mk op Inr pg ex p2 p4 p6 p8
        by (auto simp: createDB_def Let_def same_process_def sql_Close_def split: prod.splits if_splits)
    qed
  qed
qed



lemma bootstrap_calls_createDB:
  assumes "createDBIfDBPathEmpty cf w = (r, w')"
  shows "same_process w w' \<or>
   (\<exists>w3 r4 w4. same_process w w3 \<and> createDB cf w3 = (r4, w4) \<and> same_process w4 w' \<and> (r = Exits) = (r4 = Exits))"
proof -
  define w3 where "w3 = (if fst (DirMissingOrEmpty w)
      then logf DEBUG ''Db path [%s] missing [%t]'' w
      else logf DEBUG ''Db file [%s] missing [%t]'' (logf DEBUG ''Db path [%s] missing [%t]'' w))"
  have p3: "same_process w w3"
    by (simp add: w3_def)
  have e: "snd (DirMissingOrEmpty v) = None" "snd (FileMissing v n) = None" for v :: "'a world" and n
    by (simp_all add: DirMissingOrEmpty_def FileMissing_def split: option.splits)
  show ?thesis
  proof (cases "fst (DirMissingOrEmpty w) \<or> fst (FileMissing w getDBName)")
    case False
    then have "w' = w3"
      using assms e [of w]
      by (simp add: createDBIfDBPathEmpty_def Let_def w3_def split_def FileMissing_def logf_def)
    with p3 show ?thesis by simp
  next
    case True
    obtain r4 w4 where c: "createDB cf w3 = (r4, w4)"
      by (cases "createDB cf w3")
    have "same_process w4 w' \<and> (r = Exits) = (r4 = Exits)"
      using assms True e [of w] c
      by (auto simp: createDBIfDBPathEmpty_def Let_def w3_def split_def FileMissing_def logf_def
          same_process_def split: outcome.splits option.splits if_splits)
    with p3 c show ?thesis by blast
  qed
qed

lemma open_pools_closed:
  "closed p \<Longrightarrow> pools w' = pools w @ [p] \<Longrightarrow> open_pools w' = open_pools w"
proof -
  assume p: "closed p" "pools w' = pools w @ [p]"
  have "filter (\<lambda>h. \<not> closed ((pools w @ [p]) ! h)) [0..<length (pools w)]
      = filter (\<lambda>h. \<not> closed (pools w ! h)) [0..<length (pools w)]"
    by (rule filter_cong) (auto simp: nth_append)
  with p show ?thesis
    by (simp add: open_pools_def)
qed

lemma open_pools_same: "pools w' = pools w \<Longrightarrow> open_pools w' = open_pools w"
  by (simp add: open_pools_def)

lemma createDB_closes:
  assumes "createDB cf w = (r, w')"
  shows "db w' = db w \<and> isOpen w' = isOpen w \<and> (r \<noteq> Exits \<longrightarrow> open_pools w' = open_pools w)"
proof -
  from createDB_process [OF assms]
  have "r \<noteq> Exits \<longrightarrow> open_pools w' = open_pools w"
    using open_pools_same [of w' w] open_pools_closed [of "\<lparr>dsn = getDBName, closed = True\<rparr>" w' w]
    by auto
  with createDB_process [OF assms] show ?thesis by simp
qed

lemma bootstrap_closes:
  assumes "createDBIfDBPathEmpty cf w = (r, w')"
  shows "db w' = db w \<and> isOpen w' = isOpen w \<and> (r \<noteq> Exits \<longrightarrow> open_pools w' = open_pools w)"
proof -
  from bootstrap_calls_createDB [OF assms]
  show ?thesis
  proof (elim disjE exE conjE)
    assume "same_process w w'"
    then show ?thesis by (simp add: same_process_def open_pools_def)
  next
    fix w3 r4 w4
    assume p: "same_process w w3" "same_process w4 w'" "(r = Exits) = (r4 = Exits)"
      and c: "createDB cf w3 = (r4, w4)"
    from createDB_closes [OF c] p show ?thesis
      by (simp add: same_process_def open_pools_def)
  qed
qed

text \<open>
  Claim C10. \<^verbatim>\<open>createDB\<close> never touches the package variables \<^verbatim>\<open>isOpen\<close> and
  \<^verbatim>\<open>db\<close>, and when it returns, the pools that are open are those that were open
  before: the pool it opened is closed again. The same holds of the bootstrap
  \<^verbatim>\<open>createDBIfDBPathEmpty\<close>. So after the bootstrap alone the store is not open, and
  \<^verbatim>\<open>openDB\<close> then opens a pool of its own and sets the flag.
\<close>

theorem createDB_leaves_store_closed:
  "isOpen (snd (createDB cf w)) = isOpen w \<and> db (snd (createDB cf w)) = db w \<and>
   (fst (createDB cf w) \<noteq> Exits \<longrightarrow>
      (pools (snd (createDB cf w)) = pools w \<or>
       pools (snd (createDB cf w)) = pools w @ [\<lparr>dsn = getDBName, closed = True\<rparr>]) \<and>
      open_pools (snd (createDB cf w)) = open_pools w) \<and>
   isOpen (snd (createDBIfDBPathEmpty cf w)) = isOpen w \<and> db (snd (createDBIfDBPathEmpty cf w)) = db w \<and>
   (fst (createDBIfDBPathEmpty cf w) \<noteq> Exits \<longrightarrow>
      open_pools (snd (createDBIfDBPathEmpty cf w)) = open_pools w) \<and>
   (\<not> isOpen w \<and> faults (snd (createDBIfDBPathEmpty cf w)) SQL_OPEN = [] \<longrightarrow>
      openDB cf (snd (createDBIfDBPathEmpty cf w)) =
        ((Some \<lparr>sqlDB = length (pools (snd (createDBIfDBPathEmpty cf w)))\<rparr>, None),
         (snd (createDBIfDBPathEmpty cf w))
           \<lparr>pools := pools (snd (createDBIfDBPathEmpty cf w)) @ [\<lparr>dsn = getDBName, closed = False\<rparr>],
            isOpen := True\<rparr>))"
proof -
  have a: "createDB cf w = (fst (createDB cf w), snd (createDB cf w))"
    and b: "createDBIfDBPathEmpty cf w = (fst (createDBIfDBPathEmpty cf w), snd (createDBIfDBPathEmpty cf w))"
    by simp_all
  have c: "openDB cf v = ((Some \<lparr>sqlDB = length (pools v)\<rparr>, None),
      v\<lparr>pools := pools v @ [\<lparr>dsn = getDBName, closed = False\<rparr>], isOpen := True\<rparr>)"
    if "\<not> isOpen v" "faults v SQL_OPEN = []" for v :: "'a world"
    using that by (simp add: openDB_def sql_Open_def fault_def)
  have "fst (createDB cf w) \<noteq> Exits \<longrightarrow>
      pools (snd (createDB cf w)) = pools w \<or>
      pools (snd (createDB cf w)) = pools w @ [\<lparr>dsn = getDBName, closed = True\<rparr>]"
    using createDB_process [OF a] by blast
  then show ?thesis
    using createDB_closes [OF a] bootstrap_closes [OF b] c [of "snd (createDBIfDBPathEmpty cf w)"]
    by simp
qed


theorem createDB_leaves_store_closed_witness:
  "fst (createDB example_conf w_fresh) \<noteq> Exits \<and>
   pools (snd (createDB example_conf w_fresh)) = [\<lparr>dsn = ''client.db'', closed = True\<rparr>] \<and>
   open_pools (snd (createDB example_conf w_fresh)) = [] \<and>
   fst (createDBIfDBPathEmpty example_conf w_fresh) \<noteq> Exits \<and>
   open_pools (snd (createDBIfDBPathEmpty example_conf w_fresh)) = [] \<and>
   \<not> isOpen (snd (createDBIfDBPathEmpty example_conf w_fresh)) \<and>
   fst (openDB example_conf (snd (createDBIfDBPathEmpty example_conf w_fresh))) = (Some \<lparr>sqlDB = 1\<rparr>, None)"
proof -
  have a: "fst (createDB example_conf w_fresh) \<noteq> Exits"
    "fst (createDBIfDBPathEmpty example_conf w_fresh) \<noteq> Exits"
    "pools (snd (createDB example_conf w_fresh)) = [\<lparr>dsn = ''client.db'', closed = True\<rparr>]"
    by code_simp+
  have b: "\<not> isOpen w_fresh" "open_pools w_fresh = []"
    by (simp_all add: w_fresh_def open_pools_def)
  have c: "faults (snd (createDBIfDBPathEmpty example_conf w_fresh)) SQL_OPEN = []"
    "length (pools (snd (createDBIfDBPathEmpty example_conf w_fresh))) = 1"
    by code_simp+
  from createDB_leaves_store_closed [of example_conf w_fresh] a b c
  show ?thesis by simp
qed

text \<open>
  Claim C5. On a directory that exists, is not empty and holds the file \<^verbatim>\<open>client.db\<close>,
  \<^verbatim>\<open>createDBIfDBPathEmpty\<close> returns nil and changes nothing but the log. On a directory
  that is missing or empty, with no failure of the file system or the engine, it returns
  nil and leaves exactly the file \<^verbatim>\<open>client.db\<close> with an empty table; a second run right
  after it returns nil and again changes nothing but the log.
\<close>

theorem bootstrap_idempotent:
  "(dbdir w = Some fs \<and> fs \<noteq> [] \<and> map_of fs getDBName \<noteq> None \<longrightarrow>
      createDBIfDBPathEmpty cf w =
        (Returns None, w\<lparr>logs := logs w @ [(DEBUG, ''Db path [%s] missing [%t]''),
                                            (DEBUG, ''Db file [%s] missing [%t]'')]\<rparr>)) \<and>
   ((dbdir w = None \<or> dbdir w = Some []) \<and> faults w MKDIR_ALL = [] \<and> faults w SQL_OPEN = [] \<and>
    faults w PING = [] \<and> faults w CREATE_TABLE = [] \<longrightarrow>
      fst (createDBIfDBPathEmpty cf w) = Returns None \<and>
      dbdir (snd (createDBIfDBPathEmpty cf w)) = Some [(getDBName, Some [])] \<and>
      createDBIfDBPathEmpty cf (snd (createDBIfDBPathEmpty cf w)) =
        (Returns None,
         (snd (createDBIfDBPathEmpty cf w))
           \<lparr>logs := logs (snd (createDBIfDBPathEmpty cf w)) @
               [(DEBUG, ''Db path [%s] missing [%t]''), (DEBUG, ''Db file [%s] missing [%t]'')]\<rparr>))"
proof -
  have noop: "createDBIfDBPathEmpty cf v =
        (Returns None, v\<lparr>logs := logs v @ [(DEBUG, ''Db path [%s] missing [%t]''),
                                            (DEBUG, ''Db file [%s] missing [%t]'')]\<rparr>)"
    if "dbdir v = Some gs" "gs \<noteq> []" "map_of gs getDBName \<noteq> None" for v :: "'a world" and gs
    using that
    by (auto simp: createDBIfDBPathEmpty_def DirMissingOrEmpty_def FileMissing_def logf_def)
  have first: "fst (createDBIfDBPathEmpty cf w) = Returns None \<and>
      dbdir (snd (createDBIfDBPathEmpty cf w)) = Some [(getDBName, Some [])]"
    if "dbdir w = None \<or> dbdir w = Some []" "faults w MKDIR_ALL = []" "faults w SQL_OPEN = []"
      "faults w PING = []" "faults w CREATE_TABLE = []"
    using that
    apply (elim disjE)
     apply (simp_all add: createDBIfDBPathEmpty_def createDB_def DirMissingOrEmpty_def FileMissing_def
        os_MkdirAll_def sql_Open_def sql_Ping_def sql_Exec_create_def sql_Close_def fault_def connect_def
        file_table_def set_table_def logf_def Let_def getDBName_def)
    done
  show ?thesis
    using noop [of w fs] first noop [of "snd (createDBIfDBPathEmpty cf w)" "[(getDBName, Some [])]"]
    by simp
qed

theorem bootstrap_idempotent_witness:
  "fst (createDBIfDBPathEmpty example_conf w_fresh) = Returns None \<and>
   dbdir (snd (createDBIfDBPathEmpty example_conf w_fresh)) = Some [(''client.db'', Some [])] \<and>
   fst (createDBIfDBPathEmpty example_conf (snd (createDBIfDBPathEmpty example_conf w_fresh))) = Returns None \<and>
   dbdir (snd (createDBIfDBPathEmpty example_conf (snd (createDBIfDBPathEmpty example_conf w_fresh))))
     = Some [(''client.db'', Some [])] \<and>
   dbdir (w_store [(''AQI='', Blob [0xAA, 0xBB])]) = Some [(''client.db'', Some [(''AQI='', Blob [0xAA, 0xBB])])] \<and>
   createDBIfDBPathEmpty example_conf (w_store [(''AQI='', Blob [0xAA, 0xBB])]) =
     (Returns None, w_store [(''AQI='', Blob [0xAA, 0xBB])]
        \<lparr>logs := [(DEBUG, ''Db path [%s] missing [%t]''), (DEBUG, ''Db file [%s] missing [%t]'')]\<rparr>)"
proof -
  let ?t = "[(''AQI='', Blob [0xAA, 0xBB])]"
  have a: "dbdir w_fresh = None \<or> dbdir w_fresh = Some []" "faults w_fresh MKDIR_ALL = []"
    "faults w_fresh SQL_OPEN = []" "faults w_fresh PING = []" "faults w_fresh CREATE_TABLE = []"
    by (simp_all add: w_fresh_def)
  have b: "dbdir (w_store ?t) = Some [(''client.db'', Some ?t)]" "[(''client.db'', Some ?t)] \<noteq> []"
    "map_of [(''client.db'', Some ?t)] getDBName \<noteq> None" "logs (w_store ?t) = []"
    by (simp_all add: w_store_def getDBName_def)
  note idem = bootstrap_idempotent
  from a idem [of w_fresh "[]" example_conf]
  have first: "fst (createDBIfDBPathEmpty example_conf w_fresh) = Returns None"
    "dbdir (snd (createDBIfDBPathEmpty example_conf w_fresh)) = Some [(getDBName, Some [])]"
    "createDBIfDBPathEmpty example_conf (snd (createDBIfDBPathEmpty example_conf w_fresh)) =
        (Returns None,
         (snd (createDBIfDBPathEmpty example_conf w_fresh))
           \<lparr>logs := logs (snd (createDBIfDBPathEmpty example_conf w_fresh)) @
               [(DEBUG, ''Db path [%s] missing [%t]''), (DEBUG, ''Db file [%s] missing [%t]'')]\<rparr>)"
    by blast+
  from b idem [of "w_store ?t" "[(''client.db'', Some ?t)]" example_conf]
  have second: "createDBIfDBPathEmpty example_conf (w_store ?t) =
     (Returns None, w_store ?t
        \<lparr>logs := [(DEBUG, ''Db path [%s] missing [%t]''), (DEBUG, ''Db file [%s] missing [%t]'')]\<rparr>)"
    by simp
  show ?thesis
    using first(1,2) b(1) second by (simp add: first(3) getDBName_def)
qed

subsection \<open>Records are inserted once and then only read\<close>

lemma same_store_refl [simp]: "same_store w w"
  by (simp add: same_store_def)

lemma same_store_trans: "same_store w w' \<Longrightarrow> same_store w' w'' \<Longrightarrow> same_store w w''"
  by (simp add: same_store_def)

lemma same_store_logf [simp]:
  "same_store w (logf l m w') = same_store w w'" "same_store (logf l m w) w' = same_store w w'"
  by (simp_all add: same_store_def)

lemma fault_same: "fault c w = (r, w') \<Longrightarrow> same_store w w'"
  by (auto simp: fault_def same_store_def split: list.splits)

lemma connect_same: "connect h w = Inr w' \<Longrightarrow> same_store w w'"
  by (auto simp: connect_def same_store_def file_table_def split: if_splits option.splits)

lemma QueryRow_same: "sql_QueryRow h k w = (r, w') \<Longrightarrow> same_store w w'"
  by (auto simp: sql_QueryRow_def split: prod.splits option.splits sum.splits
      dest!: fault_same connect_same intro: same_store_trans)

lemma select_same: "selectEnrollmentCert d k w = (r, w') \<Longrightarrow> same_store w w'"
  by (auto simp: selectEnrollmentCert_def Let_def split: prod.splits if_splits dest!: QueryRow_same)

lemma QueryRow_row:
  "sql_QueryRow h k w = (Inr x, w') \<Longrightarrow> \<exists>t. file_table (dsn (pools w ! h)) w = Some t \<and> x = map_of t k"
  by (auto simp: sql_QueryRow_def same_store_def split: prod.splits option.splits sum.splits
      dest!: fault_same connect_same)

lemma select_found:
  assumes "selectEnrollmentCert d k w = ((Some b, e), w')"
  shows "record_at (dsn (pools w ! sqlDB d)) k w = Some (Blob b)"
proof -
  obtain row w2 where q: "sql_QueryRow (sqlDB d) k (logf INFO ''Select Enrollment TCert...'' w) = (row, w2)"
    by (cases "sql_QueryRow (sqlDB d) k (logf INFO ''Select Enrollment TCert...'' w)")
  with assms obtain v where "row = Inr (Some v)" "scan_bytes v = Some b"
    by (auto simp: selectEnrollmentCert_def Let_def row_Scan_def split: sum.splits option.splits if_splits)
  moreover from this have "v = Blob b"
    by (cases v) simp_all
  ultimately have "sql_QueryRow (sqlDB d) k (logf INFO ''Select Enrollment TCert...'' w) = (Inr (Some (Blob b)), w2)"
    using q by simp
  from QueryRow_row [OF this] show ?thesis
    by (auto simp: record_at_def)
qed

lemma Begin_effect:
  "sql_Begin h w = (r, w') \<Longrightarrow>
   pools w' = pools w \<and> (\<forall>n. file_table n w' = file_table n w) \<and>
   (case r of Inl e \<Rightarrow> txs w' = txs w
            | Inr tx \<Rightarrow> tx = length (txs w) \<and>
                        txs w' = txs w @ [\<lparr>tx_pool = h, tx_writes = [], tx_done = False\<rparr>])"
  by (auto simp: sql_Begin_def same_store_def split: prod.splits option.splits sum.splits
      dest!: fault_same connect_same)

lemma insert_effect:
  "tx_Exec_insert tx k c w = (r, w') \<Longrightarrow>
   pools w' = pools w \<and> (\<forall>n. file_table n w' = file_table n w) \<and>
   (case r of
      Some e \<Rightarrow> txs w' = txs w
    | None \<Rightarrow> tx < length (txs w) \<and>
        (\<exists>t. file_table (dsn (pools w ! tx_pool (txs w ! tx))) w = Some t \<and>
             map_of (t @ tx_writes (txs w ! tx)) k = None) \<and>
        txs w' = (txs w)[tx := (txs w ! tx)\<lparr>tx_writes := tx_writes (txs w ! tx) @ [(k, bind_bytes c)]\<rparr>])"
  by (auto simp: tx_Exec_insert_def same_store_def split: prod.splits option.splits if_splits
      dest!: fault_same)

lemma file_table_set_table:
  "file_table n w = Some t0 \<Longrightarrow> file_table m (set_table n t w) = (if m = n then Some t else file_table m w)"
  by (auto simp: file_table_def set_table_def update_conv' split: option.splits)

lemma commit_effect:
  assumes "tx_Commit tx w = (r, w')"
  shows "pools w' = pools w \<and>
   ((\<forall>n. file_table n w' = file_table n w) \<or>
    (\<exists>t. r = None \<and> tx < length (txs w) \<and>
         file_table (dsn (pools w ! tx_pool (txs w ! tx))) w = Some t \<and>
         file_table (dsn (pools w ! tx_pool (txs w ! tx))) w' = Some (t @ tx_writes (txs w ! tx)) \<and>
         (\<forall>m. m \<noteq> dsn (pools w ! tx_pool (txs w ! tx)) \<longrightarrow> file_table m w' = file_table m w)))"
proof (cases "length (txs w) \<le> tx \<or> tx_done (txs w ! tx)")
  case True
  with assms show ?thesis by (auto simp: tx_Commit_def)
next
  case False
  let ?w0 = "w\<lparr>txs := (txs w)[tx := (txs w ! tx)\<lparr>tx_done := True\<rparr>]\<rparr>"
  obtain f v where f: "fault COMMIT ?w0 = (f, v)"
    by (cases "fault COMMIT ?w0")
  from fault_same [OF f]
  have v: "pools v = pools w" "txs v = (txs w)[tx := (txs w ! tx)\<lparr>tx_done := True\<rparr>]"
    "\<And>n. file_table n v = file_table n w"
    by (simp_all add: same_store_def)
  have tx: "tx_pool (txs v ! tx) = tx_pool (txs w ! tx)" "tx_writes (txs v ! tx) = tx_writes (txs w ! tx)"
    using False by (simp_all add: v(2))
  show ?thesis
  proof (cases "f = None \<and> file_table (dsn (pools w ! tx_pool (txs w ! tx))) w \<noteq> None")
    case False
    with assms \<open>\<not> (length (txs w) \<le> tx \<or> tx_done (txs w ! tx))\<close> f v tx show ?thesis
      by (auto simp: tx_Commit_def split: option.splits)
  next
    case True
    then obtain t where t: "file_table (dsn (pools w ! tx_pool (txs w ! tx))) w = Some t" and "f = None"
      by auto
    then have "w' = set_table (dsn (pools w ! tx_pool (txs w ! tx))) (t @ tx_writes (txs w ! tx)) v" "r = None"
      using assms \<open>\<not> (length (txs w) \<le> tx \<or> tx_done (txs w ! tx))\<close> f v tx
      by (auto simp: tx_Commit_def split: option.splits)
    moreover have "file_table (dsn (pools w ! tx_pool (txs w ! tx))) v = Some t"
      using t v(3) by simp
    ultimately show ?thesis
      using \<open>\<not> (length (txs w) \<le> tx \<or> tx_done (txs w ! tx))\<close> t v
      by (simp add: file_table_set_table)
  qed
qed

lemma rollback_frame [simp]:
  "pools (tx_Rollback tx w) = pools w" "file_table n (tx_Rollback tx w) = file_table n w"
  by (simp_all add: tx_Rollback_def)


lemma Get_summary:
  assumes run: "GetEnrollmentCert cf d ident certFetcher w = ((c, e), w')"
  defines "k \<equiv> EncodeBase64 cf ident" and "N \<equiv> dsn (pools w ! sqlDB d)"
  shows "pools w' = pools w \<and>
     ((\<forall>n. file_table n w' = file_table n w) \<or>
      (\<exists>t v. file_table N w = Some t \<and> map_of t k = None \<and> file_table N w' = Some (t @ [(k, v)]) \<and>
             (\<forall>m. m \<noteq> N \<longrightarrow> file_table m w' = file_table m w))) \<and>
     (e = None \<longrightarrow> (\<exists>b. c = Some b \<and> record_at N k w = Some (Blob b)) \<or> record_at N k w = None)"
proof -
  obtain c1 e1 w1 where s1: "selectEnrollmentCert d k w = ((c1, e1), w1)"
    by (metis prod.exhaust)
  from select_same [OF s1]
  have f1: "pools w1 = pools w" "txs w1 = txs w" "\<And>n. file_table n w1 = file_table n w"
    by (simp_all add: same_store_def)
  show ?thesis
  proof (cases "e1 \<noteq> None \<or> c1 \<noteq> None")
    case True
    then have "(e = e1 \<and> e1 \<noteq> None \<or> e = None \<and> e1 = None \<and> c = c1 \<and> c1 \<noteq> None) \<and>
        (w' = logf ERROR ''Failed selecting enrollment cert: %s'' w1 \<or>
         w' = logf INFO ''GetEnrollmentCert:cert %s'' w1)"
      using run s1 by (auto simp: GetEnrollmentCert_def k_def Let_def split: if_splits)
    moreover have "record_at N k w = Some (Blob b)" if "c1 = Some b" for b
      using select_found [of d k w b e1 w1] s1 that by (simp add: N_def)
    ultimately show ?thesis
      using f1 by auto
  next
    case False
    then have s1': "selectEnrollmentCert d (EncodeBase64 cf ident) w = ((None, None), w1)"
      using s1 by (simp add: k_def)
    define w3 where "w3 = logf INFO ''Fectch Enrollment Certificate from ECA...''
        (logf INFO ''GetEnrollmentCert:cert %s'' w1)"
    obtain c2 e2 x where fe: "certFetcher ident (ext w1) = ((c2, e2), x)"
      by (metis prod.exhaust)
    define w5 where "w5 = logf INFO ''Store certificate...'' (w3\<lparr>ext := x\<rparr>)"
    have f5: "pools w5 = pools w" "txs w5 = txs w" "\<And>n. file_table n w5 = file_table n w"
      using f1 by (simp_all add: w5_def w3_def)
    obtain r6 w6 where bg: "sql_Begin (sqlDB d) w5 = (r6, w6)"
      by (metis prod.exhaust)
    note b6 = Begin_effect [OF bg]
    have f6: "pools w6 = pools w" "\<And>n. file_table n w6 = file_table n w"
      using b6 f5 by simp_all
    show ?thesis
    proof (cases "e2 \<noteq> None")
      case True
      then have "e = e2" "w' = w3\<lparr>ext := x\<rparr>"
        using run s1' fe by (auto simp: GetEnrollmentCert_def w3_def Let_def)
      then show ?thesis
        using True f1 by (auto simp: w3_def)
    next
      case no_fetch_error: False
      show ?thesis
      proof (cases r6)
        case (Inl err)
        then have "e = Some err" "w' = logf ERROR ''Failed beginning transaction: %s'' w6"
          using run s1' fe no_fetch_error bg
          by (auto simp: GetEnrollmentCert_def w3_def w5_def Let_def)
        then show ?thesis
          using f6 by auto
      next
        case (Inr tx)
        then have t6: "tx = length (txs w5)"
          "txs w6 = txs w5 @ [\<lparr>tx_pool = sqlDB d, tx_writes = [], tx_done = False\<rparr>]"
          using b6 by simp_all
        define w7 where "w7 = logf INFO ''Insert cert %s'' (logf INFO ''Insert id %s'' w6)"
        have f7: "pools w7 = pools w" "\<And>n. file_table n w7 = file_table n w"
          "txs w7 ! tx = \<lparr>tx_pool = sqlDB d, tx_writes = [], tx_done = False\<rparr>"
          using f6 t6 by (simp_all add: w7_def)
        obtain e8 w8 where ins: "tx_Exec_insert tx k c2 w7 = (e8, w8)"
          by (metis prod.exhaust)
        note i8 = insert_effect [OF ins]
        have f8: "pools w8 = pools w" "\<And>n. file_table n w8 = file_table n w"
          using i8 f7 by simp_all
        have unfold: "GetEnrollmentCert cf d ident certFetcher w =
          (if e8 \<noteq> None
           then ((None, e8), tx_Rollback tx (logf ERROR ''Failed inserting cert %s'' w8))
           else (case tx_Commit tx w8 of
                  (err, w9) \<Rightarrow>
                    if err \<noteq> None
                    then ((None, err), tx_Rollback tx (logf ERROR ''Failed committing transaction: %s'' w9))
                    else (case selectEnrollmentCert d k
                                 (logf INFO ''Fectch Enrollment Certificate from ECA...done!'' w9) of
                            ((cert, err), w11) \<Rightarrow>
                              if err \<noteq> None
                              then ((None, err),
                                    logf ERROR ''Failed selecting next TCert after fetching: %s'' w11)
                              else ((cert, None), w11))))"
          using s1' fe no_fetch_error bg Inr ins
          by (simp add: GetEnrollmentCert_def w3_def w5_def w7_def k_def Let_def split: prod.splits cong: if_cong)
        show ?thesis
        proof (cases "e8 \<noteq> None")
          case True
          then have "e = e8" "w' = tx_Rollback tx (logf ERROR ''Failed inserting cert %s'' w8)"
            using run unfold by auto
          then show ?thesis
            using True f8 by auto
        next
          case inserted: False
          then obtain t where t: "file_table N w = Some t" "map_of t k = None"
            and t8: "tx < length (txs w7)"
              "txs w8 = (txs w7)[tx := \<lparr>tx_pool = sqlDB d, tx_writes = [(k, bind_bytes c2)], tx_done = False\<rparr>]"
            using i8 f7 by (auto simp: N_def)
          then have n8: "txs w8 ! tx = \<lparr>tx_pool = sqlDB d, tx_writes = [(k, bind_bytes c2)], tx_done = False\<rparr>"
            by simp
          have absent: "record_at N k w = None"
            using t by (simp add: record_at_def)
          obtain e9 w9 where cm: "tx_Commit tx w8 = (e9, w9)"
            by (metis prod.exhaust)
          from commit_effect [OF cm]
          have f9: "pools w9 = pools w"
            "(\<forall>n. file_table n w9 = file_table n w) \<or>
             (e9 = None \<and> file_table N w9 = Some (t @ [(k, bind_bytes c2)]) \<and>
              (\<forall>m. m \<noteq> N \<longrightarrow> file_table m w9 = file_table m w))"
            using f8 n8 t by (auto simp: N_def)
          show ?thesis
          proof (cases "e9 \<noteq> None")
            case True
            then have "e = e9" "w' = tx_Rollback tx (logf ERROR ''Failed committing transaction: %s'' w9)"
              using run unfold inserted cm by auto
            then show ?thesis
              using True f9 by auto
          next
            case committed: False
            obtain c3 e3 w11 where s2: "selectEnrollmentCert d k
                (logf INFO ''Fectch Enrollment Certificate from ECA...done!'' w9) = ((c3, e3), w11)"
              by (metis prod.exhaust)
            from select_same [OF s2]
            have f11: "pools w11 = pools w9" "\<And>n. file_table n w11 = file_table n w9"
              by (simp_all add: same_store_def)
            have "\<exists>l m. w' = w11 \<or> w' = logf l m w11"
              using run unfold inserted cm committed s2 by (auto split: if_splits)
            then have "pools w' = pools w9" "\<And>n. file_table n w' = file_table n w9"
              using f11 by auto
            then show ?thesis
              using f9 t absent by auto
          qed
        qed
      qed
    qed
  qed
qed


lemma keeps_refl [simp]: "keeps_records w w"
  by (simp add: keeps_records_def)

lemma keeps_trans: "keeps_records w w' \<Longrightarrow> keeps_records w' w'' \<Longrightarrow> keeps_records w w''"
  by (simp add: keeps_records_def)

lemma keeps_tables: "(\<And>n. file_table n w' = file_table n w) \<Longrightarrow> keeps_records w w'"
  by (simp add: keeps_records_def record_at_def)

lemma keeps_logs [simp]:
  "keeps_records w (w'\<lparr>logs := l\<rparr>) = keeps_records w w'"
  "keeps_records (w\<lparr>logs := l\<rparr>) w' = keeps_records w w'"
  "keeps_records w (logf a m w') = keeps_records w w'"
  "keeps_records (logf a m w) w' = keeps_records w w'"
  by (simp_all add: keeps_records_def record_at_def)

lemma keeps_same: "same_store w w' \<Longrightarrow> keeps_records w w'"
  by (simp add: keeps_tables same_store_def)

lemma keeps_append:
  assumes "file_table N w = Some t" and "file_table N w' = Some (t @ new)"
    and "\<And>m. m \<noteq> N \<Longrightarrow> file_table m w' = file_table m w"
  shows "keeps_records w w'"
  unfolding keeps_records_def record_at_def
proof (intro allI impI)
  fix n k v
  assume r: "(case file_table n w of None \<Rightarrow> None | Some t \<Rightarrow> map_of t k) = Some v"
  show "(case file_table n w' of None \<Rightarrow> None | Some t \<Rightarrow> map_of t k) = Some v"
  proof (cases "n = N")
    case True
    with r assms(1,2) show ?thesis by simp
  next
    case False
    with r assms(3) show ?thesis by simp
  qed
qed

lemma Get_keeps:
  "keeps_records w (snd (GetEnrollmentCert cf d ident certFetcher w))"
proof -
  obtain c e w' where g: "GetEnrollmentCert cf d ident certFetcher w = ((c, e), w')"
    by (metis prod.exhaust)
  from Get_summary [OF g]
  have "(\<forall>n. file_table n w' = file_table n w) \<or>
      (\<exists>N t new. file_table N w = Some t \<and> file_table N w' = Some (t @ new) \<and>
             (\<forall>m. m \<noteq> N \<longrightarrow> file_table m w' = file_table m w))"
    by blast
  then have "keeps_records w w'"
    by (auto intro: keeps_tables keeps_append)
  then show ?thesis
    by (simp add: g)
qed

lemma MkdirAll_same:
  assumes "os_MkdirAll w = (r, w')"
  shows "same_store w w'"
proof -
  obtain f v where f: "fault MKDIR_ALL w = (f, v)"
    by (metis prod.exhaust)
  have "w' = v \<or> (dbdir v = None \<and> w' = v\<lparr>dbdir := Some []\<rparr>)"
    using assms f by (auto simp: os_MkdirAll_def split: option.splits)
  then have "same_store v w'"
    by (auto simp: same_store_def file_table_def)
  with fault_same [OF f] show ?thesis
    by (rule same_store_trans)
qed

lemma Ping_same: "sql_Ping h w = (r, w') \<Longrightarrow> same_store w w'"
  by (auto simp: sql_Ping_def split: prod.splits option.splits sum.splits
      dest!: fault_same connect_same intro: same_store_trans)

lemma Open_tables: "sql_Open n w = (r, w') \<Longrightarrow> file_table m w' = file_table m w"
  by (auto simp: sql_Open_def same_store_def split: prod.splits option.splits dest!: fault_same)

lemma Close_tables [simp]: "file_table m (sql_Close h w) = file_table m w"
  by (simp add: sql_Close_def)

lemma set_table_keeps:
  "file_table n w = None \<Longrightarrow> keeps_records w (set_table n t w)"
  by (auto simp: keeps_records_def record_at_def file_table_def set_table_def update_conv'
      split: option.splits)

lemma Exec_create_keeps:
  assumes "sql_Exec_create h w = (r, w')"
  shows "keeps_records w w'"
proof -
  obtain f v where f: "fault CREATE_TABLE w = (f, v)"
    by (metis prod.exhaust)
  note k1 = keeps_same [OF fault_same [OF f]]
  show ?thesis
  proof (cases "f = None \<and> (\<exists>v'. connect h v = Inr v')")
    case False
    then have "w' = v"
      using assms f by (auto simp: sql_Exec_create_def split: option.splits sum.splits)
    with k1 show ?thesis by simp
  next
    case True
    then obtain v' where c: "connect h v = Inr v'" and "f = None"
      by auto
    then have "w' = v' \<or> (file_table (dsn (pools v' ! h)) v' = None \<and> w' = set_table (dsn (pools v' ! h)) [] v')"
      using assms f by (auto simp: sql_Exec_create_def split: option.splits)
    then have "keeps_records v' w'"
      using set_table_keeps by auto
    with k1 keeps_same [OF connect_same [OF c]] show ?thesis
      by (blast intro: keeps_trans)
  qed
qed

lemma createDB_keeps:
  assumes "createDB cf w = (r, w')"
  shows "keeps_records w w'"
proof -
  let ?w1 = "logf DEBUG ''Creating DB at [%s]'' w"
  obtain e2 w2 where mk: "os_MkdirAll ?w1 = (e2, w2)"
    by (metis prod.exhaust)
  have k2: "keeps_records w w2"
    using keeps_same [OF MkdirAll_same [OF mk]] by simp
  obtain r4 w4 where op: "sql_Open getDBName (logf DEBUG ''Open DB at [%s]'' w2) = (r4, w4)"
    by (metis prod.exhaust)
  have "keeps_records w2 w4"
    using Open_tables [OF op] by (intro keeps_tables) simp
  with k2 have k4: "keeps_records w w4"
    by (rule keeps_trans)
  show ?thesis
  proof (cases "fst (FileMissing ?w1 (getDBFilename cf))")
    case False
    then show ?thesis
      using assms by (auto simp: createDB_def Let_def split: prod.splits)
  next
    case True
    show ?thesis
    proof (cases r4)
      case (Inl e)
      then show ?thesis
        using assms True mk op k4 by (auto simp: createDB_def Let_def split: prod.splits)
    next
      case (Inr h)
      obtain e6 w6 where pg: "sql_Ping h (logf DEBUG ''Ping DB at [%s]'' w4) = (e6, w6)"
        by (metis prod.exhaust)
      have "keeps_records w4 w6"
        using keeps_same [OF Ping_same [OF pg]] by simp
      with k4 have k6: "keeps_records w w6"
        by (rule keeps_trans)
      obtain e8 w8 where ex: "sql_Exec_create h (logf DEBUG ''Create Table [%s] at [%s]'' w6) = (e8, w8)"
        by (metis prod.exhaust)
      have "keeps_records w6 w8"
        using Exec_create_keeps [OF ex] by simp
      with k6 have k8: "keeps_records w w8"
        by (rule keeps_trans)
      have "keeps_records w8 (sql_Close h (logf l m w8))" for l m
        by (intro keeps_tables) simp
      with k8 have "keeps_records w (sql_Close h (logf l m w8))" for l m
        by (rule keeps_trans)
      then show ?thesis
        using assms True mk op Inr pg ex k6
        by (auto simp: createDB_def Let_def split: prod.splits if_splits)
    qed
  qed
qed

lemma bootstrap_keeps:
  assumes "createDBIfDBPathEmpty cf w = (r, w')"
  shows "keeps_records w w'"
proof -
  define w3 where "w3 = (if fst (DirMissingOrEmpty w)
      then logf DEBUG ''Db path [%s] missing [%t]'' w
      else logf DEBUG ''Db file [%s] missing [%t]'' (logf DEBUG ''Db path [%s] missing [%t]'' w))"
  have k3: "keeps_records w w3"
    by (simp add: w3_def)
  have e: "snd (DirMissingOrEmpty v) = None" "snd (FileMissing v n) = None" for v :: "'a world" and n
    by (simp_all add: DirMissingOrEmpty_def FileMissing_def split: option.splits)
  show ?thesis
  proof (cases "fst (DirMissingOrEmpty w) \<or> fst (FileMissing w getDBName)")
    case False
    then have "w' = w3"
      using assms e [of w]
      by (simp add: createDBIfDBPathEmpty_def Let_def w3_def split_def FileMissing_def logf_def)
    with k3 show ?thesis by simp
  next
    case True
    obtain r4 w4 where c: "createDB cf w3 = (r4, w4)"
      by (metis prod.exhaust)
    have "w' = w4 \<or> w' = logf DEBUG ''Failed creating db At [%s]: %s'' w4"
      using assms True e [of w] c
      by (auto simp: createDBIfDBPathEmpty_def Let_def w3_def split_def FileMissing_def logf_def
          split: outcome.splits option.splits if_splits)
    then have "keeps_records w4 w'"
      by auto
    with k3 createDB_keeps [OF c] show ?thesis
      by (blast intro: keeps_trans)
  qed
qed

lemma openDB_keeps:
  assumes "openDB cf w = (r, w')"
  shows "keeps_records w w'"
proof (cases "isOpen w")
  case True
  with assms show ?thesis by (simp add: openDB_def)
next
  case False
  obtain r1 w1 where op: "sql_Open getDBName w = (r1, w1)"
    by (metis prod.exhaust)
  have "w' = logf ERROR ''Error opening DB'' w1 \<or> w' = w1\<lparr>isOpen := True\<rparr>"
    using assms False op by (auto simp: openDB_def split: sum.splits)
  then have "\<And>n. file_table n w' = file_table n w"
    using Open_tables [OF op] by auto
  then show ?thesis
    by (rule keeps_tables)
qed

lemma initDB_keeps:
  assumes "initDB cf w = (r, w')"
  shows "keeps_records w w'"
proof (cases "isOpen w")
  case True
  with assms show ?thesis by (simp add: initDB_def)
next
  case False
  obtain r1 w1 where b: "createDBIfDBPathEmpty cf w = (r1, w1)"
    by (metis prod.exhaust)
  obtain r2 w2 where p: "openDB cf w1 = (r2, w2)"
    by (metis prod.exhaust)
  have "w' = w1 \<or> w' = w2\<lparr>db := fst r2\<rparr>"
    using assms False b p by (auto simp: initDB_def split: outcome.splits option.splits prod.splits)
  moreover have "keeps_records w1 (w2\<lparr>db := fst r2\<rparr>)"
    using openDB_keeps [OF p] by (simp add: keeps_records_def record_at_def)
  ultimately have "keeps_records w1 w'"
    by auto
  with bootstrap_keeps [OF b] show ?thesis
    by (rule keeps_trans)
qed

lemma exec_op_keeps: "keeps_records w (snd (exec_op cf p w))"
proof (cases p)
  case (Op_Init d)
  then show ?thesis by (simp add: Init_def)
next
  case (Op_GetEnrollmentCert d ident certFetcher)
  then show ?thesis by (simp add: Get_keeps)
next
  case (Op_CloseDB d)
  then show ?thesis by (simp add: CloseDB_def keeps_tables)
next
  case Op_initDB
  then show ?thesis using initDB_keeps [of cf w] by (simp add: prod_eq_iff)
next
  case Op_createDB
  then show ?thesis using createDB_keeps [of cf w] by (simp add: prod_eq_iff)
next
  case Op_createDBIfDBPathEmpty
  then show ?thesis using bootstrap_keeps [of cf w] by (simp add: prod_eq_iff)
next
  case Op_openDB
  then show ?thesis using openDB_keeps [of cf w] by (simp add: prod_eq_iff)
qed

lemma run_keeps: "keeps_records w (run cf ops w)"
proof (induction ops arbitrary: w)
  case Nil
  show ?case by simp
next
  case (Cons p ps)
  obtain x w1 where e: "exec_op cf p w = (x, w1)"
    by (metis prod.exhaust)
  have "keeps_records w w1"
    using exec_op_keeps [of w cf p] e by simp
  moreover have "keeps_records w1 (run cf ps w1)"
    by (rule Cons.IH)
  ultimately show ?case
    using e by (cases x) (auto intro: keeps_trans)
qed

text \<open>
  Claim C8. No operation of the package other than \<^verbatim>\<open>deleteDB\<close> updates or deletes a
  record: a record that is stored is stored with the same value after any run of those
  operations. \<^verbatim>\<open>GetEnrollmentCert\<close> leaves a table as it is or appends one row, under the
  key of its identity, which the table did not hold. \<^verbatim>\<open>deleteDB\<close> removes the whole
  directory. So after any such run, a \<^verbatim>\<open>GetEnrollmentCert\<close> for the identity that
  returns a nil error returns the certificate stored for it.
\<close>

theorem records_never_change:
  "(record_at n k w = Some v \<longrightarrow> record_at n k (run cf ops w) = Some v) \<and>
   (file_table n w = Some t \<longrightarrow>
      file_table n (snd (GetEnrollmentCert cf d ident certFetcher w)) = Some t \<or>
      (\<exists>v'. map_of t (EncodeBase64 cf ident) = None \<and>
            file_table n (snd (GetEnrollmentCert cf d ident certFetcher w))
              = Some (t @ [(EncodeBase64 cf ident, v')]))) \<and>
   (faults w REMOVE_ALL = [] \<longrightarrow> dbdir (snd (deleteDB w)) = None \<and> record_at n k (snd (deleteDB w)) = None) \<and>
   (record_at n k w = Some v \<and> EncodeBase64 cf ident = k \<and> dsn (pools (run cf ops w) ! sqlDB d) = n \<and>
    fst (GetEnrollmentCert cf d ident certFetcher (run cf ops w)) = (c, None)
      \<longrightarrow> c = scan_bytes v)"
proof (intro conjI impI)
  assume "record_at n k w = Some v"
  then show "record_at n k (run cf ops w) = Some v"
    using run_keeps [of w cf ops] by (simp add: keeps_records_def)
next
  assume t: "file_table n w = Some t"
  obtain c' e' w' where g: "GetEnrollmentCert cf d ident certFetcher w = ((c', e'), w')"
    by (metis prod.exhaust)
  let ?N = "dsn (pools w ! sqlDB d)"
  from Get_summary [OF g]
  have "(\<forall>m. file_table m w' = file_table m w) \<or>
      (\<exists>ta v'. file_table ?N w = Some ta \<and> map_of ta (EncodeBase64 cf ident) = None \<and>
          file_table ?N w' = Some (ta @ [(EncodeBase64 cf ident, v')]) \<and>
          (\<forall>m. m \<noteq> ?N \<longrightarrow> file_table m w' = file_table m w))"
    by blast
  then have "file_table n w' = Some t \<or>
      (\<exists>v'. map_of t (EncodeBase64 cf ident) = None \<and>
            file_table n w' = Some (t @ [(EncodeBase64 cf ident, v')]))"
    using t by (cases "n = ?N") auto
  then show "file_table n (snd (GetEnrollmentCert cf d ident certFetcher w)) = Some t \<or>
      (\<exists>v'. map_of t (EncodeBase64 cf ident) = None \<and>
            file_table n (snd (GetEnrollmentCert cf d ident certFetcher w))
              = Some (t @ [(EncodeBase64 cf ident, v')]))"
    by (simp add: g)
next
  assume "faults w REMOVE_ALL = []"
  then show "dbdir (snd (deleteDB w)) = None"
    by (simp add: deleteDB_def os_RemoveAll_def fault_def)
next
  assume "faults w REMOVE_ALL = []"
  then show "record_at n k (snd (deleteDB w)) = None"
    by (simp add: deleteDB_def os_RemoveAll_def fault_def record_at_def file_table_def)
next
  assume a: "record_at n k w = Some v \<and> EncodeBase64 cf ident = k \<and>
      dsn (pools (run cf ops w) ! sqlDB d) = n \<and>
      fst (GetEnrollmentCert cf d ident certFetcher (run cf ops w)) = (c, None)"
  then have r: "record_at n k (run cf ops w) = Some v"
    using run_keeps [of w cf ops] by (simp add: keeps_records_def)
  from a have "GetEnrollmentCert cf d ident certFetcher (run cf ops w)
      = ((c, None), snd (GetEnrollmentCert cf d ident certFetcher (run cf ops w)))"
    by (simp add: pair_of_fst)
  from Get_summary [OF this] a r show "c = scan_bytes v"
    by auto
qed

theorem records_never_change_witness:
  "record_at ''client.db'' ''AQI='' (w_store [(''AQI='', Blob [0xAA, 0xBB])]) = Some (Blob [0xAA, 0xBB]) \<and>
   record_at ''client.db'' ''AQI=''
     (run example_conf
        [Op_GetEnrollmentCert d0 (Some [0x03]) (fetch_returns (Some [0xCC])), Op_createDBIfDBPathEmpty,
         Op_GetEnrollmentCert d0 id0 (fetch_returns (Some [0xDD]))]
        (w_store [(''AQI='', Blob [0xAA, 0xBB])])) = Some (Blob [0xAA, 0xBB]) \<and>
   file_table ''client.db''
     (snd (GetEnrollmentCert example_conf d0 (Some [0x03]) (fetch_returns (Some [0xCC]))
        (w_store [(''AQI='', Blob [0xAA, 0xBB])])))
     = Some [(''AQI='', Blob [0xAA, 0xBB]), (''Aw=='', Blob [0xCC])] \<and>
   dbdir (snd (deleteDB (w_store [(''AQI='', Blob [0xAA, 0xBB])]))) = None \<and>
   fst (GetEnrollmentCert example_conf d0 id0 fetch_fails
     (run example_conf
        [Op_GetEnrollmentCert d0 (Some [0x03]) (fetch_returns (Some [0xCC])), Op_createDBIfDBPathEmpty,
         Op_GetEnrollmentCert d0 id0 (fetch_returns (Some [0xDD]))]
        (w_store [(''AQI='', Blob [0xAA, 0xBB])]))) = (Some [0xAA, 0xBB], None)"
proof -
  let ?t = "[(''AQI='', Blob [0xAA, 0xBB])]"
  let ?ops = "[Op_GetEnrollmentCert d0 (Some [0x03]) (fetch_returns (Some [0xCC])), Op_createDBIfDBPathEmpty,
         Op_GetEnrollmentCert d0 id0 (fetch_returns (Some [0xDD]))]"
  have h1: "record_at ''client.db'' ''AQI='' (w_store ?t) = Some (Blob [0xAA, 0xBB])"
    by (simp add: example_defs)
  have h2: "file_table ''client.db'' (w_store ?t) = Some ?t"
    by (simp add: example_defs)
  have h3: "faults (w_store ?t) REMOVE_ALL = []"
    by (simp add: w_store_def)
  have h4: "EncodeBase64 example_conf id0 = ''AQI=''"
    by (simp add: example_defs)
  have h5: "dsn (pools (run example_conf ?ops (w_store ?t)) ! sqlDB d0) = ''client.db''"
    by code_simp
  have h6: "fst (GetEnrollmentCert example_conf d0 id0 fetch_fails (run example_conf ?ops (w_store ?t)))
      = (Some [0xAA, 0xBB], None)"
    by code_simp
  have h7: "file_table ''client.db''
     (snd (GetEnrollmentCert example_conf d0 (Some [0x03]) (fetch_returns (Some [0xCC])) (w_store ?t)))
     = Some [(''AQI='', Blob [0xAA, 0xBB]), (''Aw=='', Blob [0xCC])]"
    by code_simp
  note stable = records_never_change [where n = "''client.db''" and k = "''AQI=''" and w = "w_store ?t"
      and v = "Blob [0xAA, 0xBB]" and cf = example_conf and ops = ?ops and d = d0 and ident = id0
      and certFetcher = fetch_fails and c = "Some [0xAA, 0xBB]" and t = ?t]
  from stable h1 h3 have "record_at ''client.db'' ''AQI='' (run example_conf ?ops (w_store ?t)) = Some (Blob [0xAA, 0xBB])"
    and "dbdir (snd (deleteDB (w_store ?t))) = None"
    by blast+
  with h1 h6 h7 show ?thesis
    by simp
qed

end
